theory Spec2Isabelle
  imports Complex_Main "HOL-Library.Sublist"
begin

section \<open>The JavaScript values the dashboard pipeline computes with\<close>

text \<open>
  A JavaScript string is a sequence of UTF-16 code units; a code unit is modelled by its
  number. ASCII text is written through \<open>str\<close>; the currency signs that the sources
  mention are named constants.
\<close>

type_synonym jschar = nat
type_synonym jsstring = "jschar list"

definition str :: "string \<Rightarrow> jsstring" where
  "str s = map of_char s"

definition rupee :: jschar where "rupee = 8377"   \<comment> \<open>U+20B9\<close>
definition euro :: jschar where "euro = 8364"     \<comment> \<open>U+20AC\<close>
definition pound :: jschar where "pound = 163"    \<comment> \<open>U+00A3\<close>
definition yen :: jschar where "yen = 165"        \<comment> \<open>U+00A5\<close>
definition dollar :: jschar where "dollar = 36"
definition comma :: jschar where "comma = 44"

text \<open>\<open>String.prototype.includes\<close>: the pattern occurs as a contiguous block.\<close>

fun str_includes :: "jsstring \<Rightarrow> jsstring \<Rightarrow> bool" where
  "str_includes [] pat = (pat = [])"
| "str_includes (c # cs) pat = (prefix pat (c # cs) \<or> str_includes cs pat)"

text \<open>
  \<open>toLowerCase\<close> and \<open>toUpperCase\<close> on the Basic Latin letters; every other code unit is
  left as it is (digits, punctuation and the currency signs have no case).
\<close>

definition lowerChar :: "jschar \<Rightarrow> jschar" where
  "lowerChar c = (if 65 \<le> c \<and> c \<le> 90 then c + 32 else c)"

definition upperChar :: "jschar \<Rightarrow> jschar" where
  "upperChar c = (if 97 \<le> c \<and> c \<le> 122 then c - 32 else c)"

definition toLowerCase :: "jsstring \<Rightarrow> jsstring" where
  "toLowerCase s = map lowerChar s"

definition toUpperCase :: "jsstring \<Rightarrow> jsstring" where
  "toUpperCase s = map upperChar s"

text \<open>White space as \<open>trim\<close> and \<open>parseFloat\<close> skip it (WhiteSpace and LineTerminator).\<close>

definition isWhiteSpace :: "jschar \<Rightarrow> bool" where
  "isWhiteSpace c =
     (c \<in> set [9, 10, 11, 12, 13, 32, 160, 5760, 8232, 8233, 8239, 8287, 12288, 65279]
      \<or> (8192 \<le> c \<and> c \<le> 8202))"

definition trim :: "jsstring \<Rightarrow> jsstring" where
  "trim s = rev (dropWhile isWhiteSpace (rev (dropWhile isWhiteSpace s)))"

text \<open>
  A JavaScript number is NaN, an infinity or a finite value. A finite value is a
  rational; the sign of zero is not represented. The four operations below are exact;
  the rounding to binary64 that the runtime applies to each result is defined after
  them. The exact operations are the runtime's wherever the values involved are exactly
  representable, as the integers below \<open>2^53\<close> are.
\<close>

datatype jsnum = NaN | PInf | NInf | Fin rat

fun jsadd :: "jsnum \<Rightarrow> jsnum \<Rightarrow> jsnum" where
  "jsadd NaN _ = NaN"
| "jsadd _ NaN = NaN"
| "jsadd PInf NInf = NaN"
| "jsadd NInf PInf = NaN"
| "jsadd PInf _ = PInf"
| "jsadd _ PInf = PInf"
| "jsadd NInf _ = NInf"
| "jsadd _ NInf = NInf"
| "jsadd (Fin a) (Fin b) = Fin (a + b)"

fun jsneg :: "jsnum \<Rightarrow> jsnum" where
  "jsneg NaN = NaN"
| "jsneg PInf = NInf"
| "jsneg NInf = PInf"
| "jsneg (Fin a) = Fin (- a)"

definition jssub :: "jsnum \<Rightarrow> jsnum \<Rightarrow> jsnum" where
  "jssub a b = jsadd a (jsneg b)"

fun sgn_of :: "jsnum \<Rightarrow> int" where
  "sgn_of NaN = 0"
| "sgn_of PInf = 1"
| "sgn_of NInf = - 1"
| "sgn_of (Fin a) = (if a > 0 then 1 else if a < 0 then - 1 else 0)"

definition inf_of_sign :: "int \<Rightarrow> jsnum" where
  "inf_of_sign s = (if s = 0 then NaN else if s > 0 then PInf else NInf)"

fun jsmul :: "jsnum \<Rightarrow> jsnum \<Rightarrow> jsnum" where
  "jsmul NaN _ = NaN"
| "jsmul _ NaN = NaN"
| "jsmul (Fin a) (Fin b) = Fin (a * b)"
| "jsmul a b = inf_of_sign (sgn_of a * sgn_of b)"

fun jsdiv :: "jsnum \<Rightarrow> jsnum \<Rightarrow> jsnum" where
  "jsdiv NaN _ = NaN"
| "jsdiv _ NaN = NaN"
| "jsdiv (Fin a) (Fin b) = (if b = 0 then inf_of_sign (sgn_of (Fin a)) else Fin (a / b))"
| "jsdiv (Fin a) _ = Fin 0"
| "jsdiv a (Fin b) = inf_of_sign (sgn_of a * (if b < 0 then - 1 else 1))"
| "jsdiv _ _ = NaN"

text \<open>The comparisons \<open>a > b\<close> and \<open>a >= b\<close>: false as soon as one side is NaN.\<close>

fun jsgt :: "jsnum \<Rightarrow> jsnum \<Rightarrow> bool" where
  "jsgt NaN _ = False"
| "jsgt _ NaN = False"
| "jsgt PInf b = (b \<noteq> PInf)"
| "jsgt NInf _ = False"
| "jsgt (Fin a) PInf = False"
| "jsgt (Fin a) NInf = True"
| "jsgt (Fin a) (Fin b) = (a > b)"

definition jsge :: "jsnum \<Rightarrow> jsnum \<Rightarrow> bool" where
  "jsge a b = (a \<noteq> NaN \<and> b \<noteq> NaN \<and> (a = b \<or> jsgt a b))"

definition isNaN :: "jsnum \<Rightarrow> bool" where
  "isNaN x = (x = NaN)"

fun isFinite :: "jsnum \<Rightarrow> bool" where
  "isFinite (Fin _) = True"
| "isFinite _ = False"

fun mathAbs :: "jsnum \<Rightarrow> jsnum" where
  "mathAbs NaN = NaN"
| "mathAbs (Fin a) = Fin \<bar>a\<bar>"
| "mathAbs _ = PInf"

text \<open>Truthiness of a number, and \<open>x || 0\<close>.\<close>

definition numTruthy :: "jsnum \<Rightarrow> bool" where
  "numTruthy x = (x \<noteq> NaN \<and> x \<noteq> Fin 0)"

definition orZero :: "jsnum \<Rightarrow> jsnum" where
  "orZero x = (if numTruthy x then x else Fin 0)"

subsection \<open>Rounding to binary64\<close>

text \<open>
  The operations \<open>jsadd\<close>, \<open>jssub\<close>, \<open>jsmul\<close> and \<open>jsdiv\<close> above give the exact result.
  The runtime rounds every result to the nearest binary64 number, ties to the even
  significand: \<open>toDouble\<close> is this rounding. The binary exponent of a magnitude is found
  by halving or doubling, and is not taken below \<open>-1022\<close>, so that the spacing of the
  subnormal numbers is \<open>2^-1074\<close>; a rounded magnitude of \<open>2^1024\<close> or more is an
  infinity. The operations \<open>fadd\<close>, \<open>fsub\<close>, \<open>fmul\<close> and \<open>fdiv\<close> are the rounded ones.
  The serial-date conversion, the percentages and the sums of the real-time client page
  are computed with them; the running sums of the server page's aggregators are kept
  exact, which is what the runtime computes as long as the partial sums are binary64
  numbers.
\<close>

definition roundEven :: "rat \<Rightarrow> int" where
  "roundEven y =
     (let f = \<lfloor>y\<rfloor>; r = y - of_int f
      in if r < 1 / 2 then f else if r > 1 / 2 then f + 1 else if even f then f else f + 1)"

fun expUp :: "nat \<Rightarrow> rat \<Rightarrow> int" where
  "expUp 0 x = 0"
| "expUp (Suc n) x = (if x \<ge> 2 then 1 + expUp n (x / 2) else 0)"

fun expDown :: "nat \<Rightarrow> rat \<Rightarrow> int" where
  "expDown 0 x = 0"
| "expDown (Suc n) x = (if x < 1 then expDown n (2 * x) - 1 else 0)"

definition binExp :: "rat \<Rightarrow> int" where
  "binExp a = (if a \<ge> 1 then expUp 1100 a else expDown 1022 a)"

definition toDouble :: "rat \<Rightarrow> jsnum" where
  "toDouble x =
     (if x = 0 then Fin 0
      else let a = \<bar>x\<bar>;
               q = 2 powi (binExp a - 52);
               m = of_int (roundEven (a / q)) * q
           in if m \<ge> 2 ^ 1024 then (if x < 0 then NInf else PInf)
              else Fin (if x < 0 then - m else m))"

fun roundNum :: "jsnum \<Rightarrow> jsnum" where
  "roundNum (Fin x) = toDouble x"
| "roundNum x = x"

definition fadd :: "jsnum \<Rightarrow> jsnum \<Rightarrow> jsnum" where
  "fadd a b = roundNum (jsadd a b)"

definition fsub :: "jsnum \<Rightarrow> jsnum \<Rightarrow> jsnum" where
  "fsub a b = roundNum (jssub a b)"

definition fmul :: "jsnum \<Rightarrow> jsnum \<Rightarrow> jsnum" where
  "fmul a b = roundNum (jsmul a b)"

definition fdiv :: "jsnum \<Rightarrow> jsnum \<Rightarrow> jsnum" where
  "fdiv a b = roundNum (jsdiv a b)"

text \<open>
  The rounded magnitude of a positive number, and the values a running sum of
  non-negative amounts takes: binary64 numbers (rounding leaves them as they are) that
  are \<open>>= 0\<close>, \<open>Infinity\<close> included.
\<close>

definition mag :: "rat \<Rightarrow> rat" where
  "mag a = of_int (roundEven (a / 2 powi (binExp a - 52))) * 2 powi (binExp a - 52)"

definition nonNegDouble :: "jsnum \<Rightarrow> bool" where
  "nonNegDouble x = (roundNum x = x \<and> jsge x (Fin 0))"

text \<open>
  \<open>parseFloat\<close>: skip leading white space, then take the longest prefix that is a
  decimal literal (an optional sign, then \<open>Infinity\<close>, or digits with an optional
  fraction and an optional exponent); NaN when there is no such prefix.
\<close>

definition isDigit :: "jschar \<Rightarrow> bool" where
  "isDigit c = (48 \<le> c \<and> c \<le> 57)"

definition digitsVal :: "jsstring \<Rightarrow> nat" where
  "digitsVal ds = foldl (\<lambda>a c. 10 * a + (c - 48)) 0 ds"

definition splitSign :: "jsstring \<Rightarrow> bool \<times> jsstring" where
  "splitSign t =
     (case t of
        [] \<Rightarrow> (False, [])
      | c # r \<Rightarrow> if c = 45 then (True, r) else if c = 43 then (False, r) else (False, t))"

definition exponentPart :: "jsstring \<Rightarrow> int" where
  "exponentPart r =
     (case r of
        [] \<Rightarrow> 0
      | c # r1 \<Rightarrow>
          if c = 101 \<or> c = 69 then
            (let (neg, r2) = splitSign r1; ds = takeWhile isDigit r2
             in if ds = [] then 0
                else if neg then - int (digitsVal ds) else int (digitsVal ds))
          else 0)"

definition scale10 :: "rat \<Rightarrow> int \<Rightarrow> rat" where
  "scale10 m e = (if e \<ge> 0 then m * 10 ^ nat e else m / 10 ^ nat (- e))"

definition parseFloat :: "jsstring \<Rightarrow> jsnum" where
  "parseFloat s =
     (let (neg, u) = splitSign (dropWhile isWhiteSpace s)
      in if prefix (str ''Infinity'') u then (if neg then NInf else PInf)
         else
           let ip = takeWhile isDigit u;
               r1 = dropWhile isDigit u;
               (fp, r2) = (case r1 of
                             [] \<Rightarrow> ([], [])
                           | c # r \<Rightarrow> if c = 46 then (takeWhile isDigit r, dropWhile isDigit r)
                                      else ([], r1))
           in if ip = [] \<and> fp = [] then NaN
              else
                let m = scale10 (of_nat (digitsVal ip) + of_nat (digitsVal fp) / 10 ^ length fp)
                                (exponentPart r2)
                in Fin (if neg then - m else m))"

text \<open>
  A cell or field value as the functions inspect it: a missing property reads as
  \<open>undefined\<close>. A row is an object with string keys in insertion order.
\<close>

datatype jsval = VUndefined | VNull | VNum jsnum | VStr jsstring

type_synonym row = "(jsstring \<times> jsval) list"

definition getField :: "row \<Rightarrow> jsstring \<Rightarrow> jsval" where
  "getField r k = (case map_of r k of None \<Rightarrow> VUndefined | Some v \<Rightarrow> v)"

fun truthy :: "jsval \<Rightarrow> bool" where
  "truthy VUndefined = False"
| "truthy VNull = False"
| "truthy (VNum x) = numTruthy x"
| "truthy (VStr s) = (s \<noteq> [])"

section \<open>app/page.tsx: the server page's pipeline\<close>

subsection \<open>cleanNumericValue and tryFieldNames\<close>

text \<open>
  \<^verbatim>\<open>
  const cleanNumericValue = (value: any): number => {
    if (value === null || value === undefined) return 0;
    const cleaned = String(value).replace(/[,kg<rupee>$]/g, '');
    return parseFloat(cleaned) || 0;
  };
  \<close>
  The character class removes every comma, \<open>k\<close>, \<open>g\<close>, rupee sign and dollar sign.
  For a number, \<open>String\<close> yields its shortest round-trip literal, which contains none
  of the removed characters and parses back to the number.
\<close>

definition strippedChars :: "jschar list" where
  "strippedChars = [comma, 107, 103, rupee, dollar]"

definition stripChars :: "jsstring \<Rightarrow> jsstring" where
  "stripChars s = filter (\<lambda>c. c \<notin> set strippedChars) s"

fun cleanNumericValue :: "jsval \<Rightarrow> jsnum" where
  "cleanNumericValue VNull = Fin 0"
| "cleanNumericValue VUndefined = Fin 0"
| "cleanNumericValue (VStr s) = orZero (parseFloat (stripChars s))"
| "cleanNumericValue (VNum x) = orZero x"

text \<open>
  \<^verbatim>\<open>
  const tryFieldNames = (row: any, fieldNames: string[]): number => {
    for (const field of fieldNames) {
      if (row[field] !== undefined) { return cleanNumericValue(row[field]); }
    }
    return 0;
  };
  \<close>
\<close>

fun tryFieldNames :: "row \<Rightarrow> jsstring list \<Rightarrow> jsnum" where
  "tryFieldNames r [] = Fin 0"
| "tryFieldNames r (field # fieldNames) =
     (if getField r field \<noteq> VUndefined then cleanNumericValue (getField r field)
      else tryFieldNames r fieldNames)"

subsection \<open>The snapshot\<close>

text \<open>
  \<open>SheetsData = Record<string, { headers: string[]; rows: SheetRows }>\<close>: the sheets of
  a snapshot, listed in the order in which \<open>Object.entries\<close> enumerates them.
\<close>

record sheet =
  headers :: "jsstring list"
  rows :: "row list"

type_synonym SheetsData = "(jsstring \<times> sheet) list"

text \<open>\<open>sheetsData?.<name>?.rows || []\<close>\<close>

definition rowsOf :: "SheetsData \<Rightarrow> jsstring \<Rightarrow> row list" where
  "rowsOf sheetsData name = (case map_of sheetsData name of None \<Rightarrow> [] | Some sh \<Rightarrow> rows sh)"

subsection \<open>Dates as the production aggregator reads them\<close>

text \<open>
  A \<open>Date\<close> holds a time value, a whole number of milliseconds since the Unix epoch, or
  is invalid (\<open>None\<close>). \<open>new Date(x)\<close> clips a number to a time value; for a string it
  calls \<open>Date.parse\<close>, whose result outside the ISO format is left to the runtime, so
  the parser is a parameter \<open>dateParse\<close>. The current time is the parameter \<open>now\<close>.
\<close>

definition truncZero :: "rat \<Rightarrow> int" where
  "truncZero x = (if x \<ge> 0 then \<lfloor>x\<rfloor> else \<lceil>x\<rceil>)"

fun timeClip :: "jsnum \<Rightarrow> int option" where
  "timeClip (Fin x) = (if \<bar>x\<bar> \<le> 8640000000000000 then Some (truncZero x) else None)"
| "timeClip _ = None"

fun newDate :: "(jsstring \<Rightarrow> int option) \<Rightarrow> jsval \<Rightarrow> int option" where
  "newDate dateParse (VStr s) = dateParse s"
| "newDate dateParse (VNum x) = timeClip x"
| "newDate dateParse VNull = Some 0"
| "newDate dateParse VUndefined = None"

subsection \<open>calculateProductionMetrics\<close>

record ProductionMetrics =
  activeBatches :: nat
  totalExpectedYield :: jsnum
  totalHarvested :: jsnum
  harvestEfficiency :: jsnum

text \<open>
  \<open>parseFloat(x.toFixed(d))\<close>: \<open>toFixed\<close> picks the integer \<open>n\<close> with \<open>n / 10^d\<close> nearest
  to the magnitude of \<open>x\<close> (the larger one on a tie), and \<open>parseFloat\<close> rounds the
  printed decimal to binary64; from \<open>10^21\<close> on, and for NaN and the infinities,
  \<open>toFixed\<close> prints the number itself, which parses back to it.
\<close>

fun toFixedParsed :: "nat \<Rightarrow> jsnum \<Rightarrow> jsnum" where
  "toFixedParsed d (Fin x) =
     (if \<bar>x\<bar> \<ge> 10 ^ 21 then Fin x
      else let n = \<lfloor>\<bar>x\<bar> * 10 ^ d + 1 / 2\<rfloor>
           in toDouble ((if x < 0 then - 1 else 1) * of_int n / 10 ^ d))"
| "toFixedParsed d x = x"

text \<open>
  \<^verbatim>\<open>
  const activeBatches = batches.filter((row: any) => {
    if (!row.ExpectedHarvest) return false;
    try {
      const expectedDate = new Date(row.ExpectedHarvest);
      return expectedDate >= new Date(); // Not yet harvested
    } catch { return false; }
  }).length;
  \<close>
  Comparing two dates compares their time values; an invalid date compares false.
\<close>

definition isActiveBatch :: "(jsstring \<Rightarrow> int option) \<Rightarrow> int \<Rightarrow> row \<Rightarrow> bool" where
  "isActiveBatch dateParse now r =
     (if \<not> truthy (getField r (str ''ExpectedHarvest'')) then False
      else case newDate dateParse (getField r (str ''ExpectedHarvest'')) of
             None \<Rightarrow> False
           | Some expectedDate \<Rightarrow> expectedDate \<ge> now)"

definition expectedYieldFields :: "jsstring list" where
  "expectedYieldFields = [str ''ExpectedYield(kg)'', str ''ExpectedYield'', str ''Expected Yield'']"

definition revisedYieldFields :: "jsstring list" where
  "revisedYieldFields = [str ''RevisedYield(kg)'', str ''RevisedYield'', str ''Revised Yield'']"

definition harvestedFields :: "jsstring list" where
  "harvestedFields =
     [str ''QtyHarvested(kg)'', str ''QtyHarvested'', str ''Quantity Harvested'', str ''Harvest Qty'']"

text \<open>The body of the yield reduction, \<open>sum + (revised || expected)\<close>, with \<open>acc\<close> for \<open>sum\<close>.\<close>

definition yieldStep :: "jsnum \<Rightarrow> row \<Rightarrow> jsnum" where
  "yieldStep acc r =
     (let expected = tryFieldNames r expectedYieldFields;
          revised = tryFieldNames r revisedYieldFields
      in jsadd acc (if numTruthy revised then revised else expected))"

definition harvestedStep :: "jsnum \<Rightarrow> row \<Rightarrow> jsnum" where
  "harvestedStep acc r = jsadd acc (tryFieldNames r harvestedFields)"

definition percentOf :: "nat \<Rightarrow> jsnum \<Rightarrow> jsnum \<Rightarrow> jsnum" where
  "percentOf d a b = toFixedParsed d (fmul (fdiv a b) (Fin 100))"

definition calculateProductionMetrics ::
  "(jsstring \<Rightarrow> int option) \<Rightarrow> int \<Rightarrow> SheetsData \<Rightarrow> ProductionMetrics" where
  "calculateProductionMetrics dateParse now sheetsData =
     (let batches = rowsOf sheetsData (str ''Batches'');
          harvestLog = rowsOf sheetsData (str ''Harvest_Log'');
          active = length (filter (isActiveBatch dateParse now) batches);
          expectedTotal = foldl yieldStep (Fin 0) batches;
          harvestedTotal = foldl harvestedStep (Fin 0) harvestLog;
          efficiency = (if jsgt expectedTotal (Fin 0)
                        then percentOf 1 harvestedTotal expectedTotal else Fin 0)
      in \<lparr> activeBatches = active, totalExpectedYield = expectedTotal,
           totalHarvested = harvestedTotal, harvestEfficiency = efficiency \<rparr>)"

subsection \<open>calculateHarvestMetrics\<close>

record QualityMetrics =
  rejectionRate :: jsnum
  avgQualityScore :: jsnum
  onTimePercentage :: jsnum
  totalDeliveries :: nat
  onTimeDeliveries :: nat
  qualityTotalHarvested :: jsnum  \<comment> \<open>the field \<open>totalHarvested\<close> of \<open>QualityMetrics\<close>\<close>

record qualityData =
  qdHarvested :: jsnum
  qdRejected :: jsnum
  qdAccepted :: jsnum
  qcScores :: "jsnum list"

definition rejectedFields :: "jsstring list" where
  "rejectedFields = [str ''Rejected(kg)'', str ''Rejected'', str ''Qty Rejected'']"

definition acceptedFields :: "jsstring list" where
  "acceptedFields = [str ''Accepted(kg)'', str ''Accepted'', str ''Qty Accepted'']"

definition qcFields :: "jsstring list" where
  "qcFields = [str ''QC'', str ''Quality'', str ''QualityScore'']"

definition qualityStep :: "qualityData \<Rightarrow> row \<Rightarrow> qualityData" where
  "qualityStep acc r =
     (let harvested = tryFieldNames r harvestedFields;
          rejected = tryFieldNames r rejectedFields;
          accepted = tryFieldNames r acceptedFields;
          qc = tryFieldNames r qcFields
      in \<lparr> qdHarvested = jsadd (qdHarvested acc) harvested,
           qdRejected = jsadd (qdRejected acc) rejected,
           qdAccepted = jsadd (qdAccepted acc) accepted,
           qcScores = (if jsgt qc (Fin 0) then qcScores acc @ [qc] else qcScores acc) \<rparr>)"

text \<open>
  \<open>String(onTimeValue) === '1'\<close>: true of the string \<open>1\<close> and of the number one; a
  missing value prints as \<open>undefined\<close>.
\<close>

fun stringIsOne :: "jsval \<Rightarrow> bool" where
  "stringIsOne (VStr s) = (s = str ''1'')"
| "stringIsOne (VNum x) = (x = Fin 1)"
| "stringIsOne _ = False"

definition calculateHarvestMetrics :: "SheetsData \<Rightarrow> QualityMetrics" where
  "calculateHarvestMetrics sheetsData =
     (let harvestLog = rowsOf sheetsData (str ''Harvest_Log'');
          postHarvest = rowsOf sheetsData (str ''Post_Harvest'');
          qd = foldl qualityStep
                 \<lparr> qdHarvested = Fin 0, qdRejected = Fin 0, qdAccepted = Fin 0, qcScores = [] \<rparr>
                 harvestLog;
          rejection = (if jsgt (qdHarvested qd) (Fin 0)
                       then percentOf 1 (qdRejected qd) (qdHarvested qd) else Fin 0);
          avgScore = (if length (qcScores qd) > 0
                      then toFixedParsed 1
                             (fdiv (foldl jsadd (Fin 0) (qcScores qd))
                                   (Fin (of_nat (length (qcScores qd)))))
                      else Fin 0);
          onTime = length (filter (\<lambda>r. stringIsOne (getField r (str ''OnTime(0/1)''))) postHarvest);
          deliveries = length postHarvest;
          onTimePct = (if deliveries > 0
                       then percentOf 1 (Fin (of_nat onTime)) (Fin (of_nat deliveries)) else Fin 0)
      in \<lparr> rejectionRate = rejection, avgQualityScore = avgScore, onTimePercentage = onTimePct,
           totalDeliveries = deliveries, onTimeDeliveries = onTime,
           qualityTotalHarvested = qdHarvested qd \<rparr>)"

subsection \<open>SHEET_TYPE_CONFIG and detectSheetType\<close>

record sheetTypeConfig =
  configKeywords :: "jsstring list"   \<comment> \<open>the field \<open>keywords\<close> of a table entry\<close>
  configHeaders :: "jsstring list"   \<comment> \<open>the field \<open>headers\<close> of a table entry\<close>
  configColor :: string
  configIcon :: jsstring

definition SHEET_TYPE_CONFIG :: "(string \<times> sheetTypeConfig) list" where
  "SHEET_TYPE_CONFIG =
     [(''production-batches'',
         \<lparr> configKeywords = [str ''BATCH''], configHeaders = [str ''BatchID'', str ''SownDate''],
           configColor = ''green'', configIcon = [55356, 57137] \<rparr>),
      (''harvest-tracking'',
         \<lparr> configKeywords = [str ''HARVEST''], configHeaders = [str ''QtyHarvested'', str ''HarvestDate''],
           configColor = ''orange'', configIcon = [55356, 57150] \<rparr>),
      (''sourcing-procurement'',
         \<lparr> configKeywords = [str ''SOURCING'', str ''PROCUREMENT''],
           configHeaders = [str ''Vendor'', str ''Supplier''],
           configColor = ''blue'', configIcon = [55357, 56986] \<rparr>),
      (''post-harvest-logistics'',
         \<lparr> configKeywords = [str ''POST_HARVEST'', str ''POST-HARVEST''],
           configHeaders = [str ''Sorting'', str ''Packaging'', str ''Transit''],
           configColor = ''purple'', configIcon = [55357, 56550] \<rparr>),
      (''financial-revenue'',
         \<lparr> configKeywords = [], configHeaders = [str ''Revenue'', str ''Income'', str ''Sales''],
           configColor = ''emerald'', configIcon = [55357, 56496] \<rparr>),
      (''financial-expense'',
         \<lparr> configKeywords = [], configHeaders = [str ''Expense'', str ''Cost'', str ''Amount''],
           configColor = ''red'', configIcon = [55357, 56504] \<rparr>),
      (''production-settings'',
         \<lparr> configKeywords = [str ''SETTINGS''], configHeaders = [str ''PricePerKg'', str ''GermDays''],
           configColor = ''gray'', configIcon = [9881, 65039] \<rparr>)]"

text \<open>
  \<^verbatim>\<open>
  for (const [type, config] of Object.entries(SHEET_TYPE_CONFIG)) {
    const hasKeyword = config.keywords.some(keyword => nameUpper.includes(keyword));
    const hasHeader = config.headers.some(header =>
      headers.some(h => h && h.includes(header)));
    if (hasKeyword || hasHeader) return type;
  }
  return 'general';
  \<close>
\<close>

fun detectSheetTypeLoop ::
  "(string \<times> sheetTypeConfig) list \<Rightarrow> jsstring \<Rightarrow> jsstring list \<Rightarrow> string" where
  "detectSheetTypeLoop [] nameUpper hs = ''general''"
| "detectSheetTypeLoop ((type, config) # rest) nameUpper hs =
     (let hasKeyword = list_ex (\<lambda>keyword. str_includes nameUpper keyword) (configKeywords config);
          hasHeader = list_ex (\<lambda>header. list_ex (\<lambda>h. h \<noteq> [] \<and> str_includes h header) hs)
                              (configHeaders config)
      in if hasKeyword \<or> hasHeader then type else detectSheetTypeLoop rest nameUpper hs)"

definition detectSheetType :: "jsstring \<Rightarrow> jsstring list \<Rightarrow> string" where
  "detectSheetType name hs = detectSheetTypeLoop SHEET_TYPE_CONFIG (toUpperCase name) hs"



subsection \<open>detectFinancialData\<close>

datatype trend = Neutral | Positive | Negative

record FinancialData =
  total :: jsnum
  sources :: nat
  categories :: nat
  records :: nat
  fdTrend :: trend   \<comment> \<open>the field \<open>trend\<close>\<close>

text \<open>
  The four variables the scan updates. The \<open>Set\<close> of categories is kept as the list of
  its distinct members in insertion order.
\<close>

record finState =
  fsTotal :: jsnum
  fsSources :: nat
  fsCategories :: "jsval list"
  fsRecords :: nat

definition setAdd :: "jsval \<Rightarrow> jsval list \<Rightarrow> jsval list" where
  "setAdd v vs = (if v \<in> set vs then vs else vs @ [v])"

definition searchFields :: "bool \<Rightarrow> jsstring list" where
  "searchFields isRevenue =
     (if isRevenue then [str ''revenue'', str ''income'', str ''sales'']
      else [str ''expense'', str ''cost'', str ''amount'', str ''outstanding''])"

definition categoryFields :: "jsstring list" where
  "categoryFields =
     [str ''Crop'', str ''Variety'', str ''Type'', str ''Department'', str ''Vendor'', str ''Description'']"

text \<open>
  \<^verbatim>\<open>
  const relevantColumns = sheetData.headers.filter(header =>
    header && searchFields.some(field =>
      header.toLowerCase().includes(field) ||
      (header.includes('<rupee>') && (isRevenue ? header.toLowerCase().includes('revenue')
                                              : !header.toLowerCase().includes('revenue')))));
  \<close>
\<close>

definition isRelevantColumn :: "bool \<Rightarrow> jsstring \<Rightarrow> bool" where
  "isRelevantColumn isRevenue header =
     (header \<noteq> [] \<and>
      list_ex (\<lambda>field.
                 str_includes (toLowerCase header) field \<or>
                 (str_includes header [rupee] \<and>
                  (if isRevenue then str_includes (toLowerCase header) (str ''revenue'')
                   else \<not> str_includes (toLowerCase header) (str ''revenue''))))
              (searchFields isRevenue))"

definition relevantColumns :: "bool \<Rightarrow> jsstring list \<Rightarrow> jsstring list" where
  "relevantColumns isRevenue hs = filter (isRelevantColumn isRevenue) hs"

text \<open>
  \<^verbatim>\<open>
  const value = cleanNumericValue(row[col]);
  if (value > 0) {
    total += value;
    records++;
    ['Crop', 'Variety', 'Type', 'Department', 'Vendor', 'Description'].forEach(field => {
      if (row[field]) categories.add(row[field]);
    });
  }
  \<close>
\<close>

definition addCategories :: "row \<Rightarrow> jsval list \<Rightarrow> jsval list" where
  "addCategories r cats =
     foldl (\<lambda>cs field. if truthy (getField r field) then setAdd (getField r field) cs else cs)
           cats categoryFields"

definition cellStep :: "row \<Rightarrow> finState \<Rightarrow> jsstring \<Rightarrow> finState" where
  "cellStep r st col =
     (let v = cleanNumericValue (getField r col)
      in if jsgt v (Fin 0)
         then st \<lparr> fsTotal := jsadd (fsTotal st) v,
                   fsRecords := fsRecords st + 1,
                   fsCategories := addCategories r (fsCategories st) \<rparr>
         else st)"

definition rowStep :: "jsstring list \<Rightarrow> finState \<Rightarrow> row \<Rightarrow> finState" where
  "rowStep cols st r = foldl (cellStep r) st cols"

text \<open>
  One sheet of the outer \<open>forEach\<close>: a sheet with no rows is skipped
  (\<open>!sheetData?.rows?.length\<close>); a sheet with a relevant column counts as one source.
\<close>

definition sheetStep :: "bool \<Rightarrow> finState \<Rightarrow> jsstring \<times> sheet \<Rightarrow> finState" where
  "sheetStep isRevenue st entry =
     (let sheetData = snd entry
      in if rows sheetData = [] then st
         else let cols = relevantColumns isRevenue (headers sheetData)
              in if length cols > 0
                 then foldl (rowStep cols) (st \<lparr> fsSources := fsSources st + 1 \<rparr>) (rows sheetData)
                 else st)"

definition finInit :: finState where
  "finInit = \<lparr> fsTotal = Fin 0, fsSources = 0, fsCategories = [], fsRecords = 0 \<rparr>"

definition scanFinancialData :: "SheetsData \<Rightarrow> bool \<Rightarrow> finState" where
  "scanFinancialData sheetsData isRevenue = foldl (sheetStep isRevenue) finInit sheetsData"

definition detectFinancialData :: "SheetsData \<Rightarrow> bool \<Rightarrow> FinancialData" where
  "detectFinancialData sheetsData isRevenue =
     (let st = scanFinancialData sheetsData isRevenue
      in \<lparr> total = fsTotal st, sources = fsSources st, categories = length (fsCategories st),
           records = fsRecords st, fdTrend = Neutral \<rparr>)"

definition detectRevenueData :: "SheetsData \<Rightarrow> FinancialData" where
  "detectRevenueData sheetsData = detectFinancialData sheetsData True"

definition detectExpenseData :: "SheetsData \<Rightarrow> FinancialData" where
  "detectExpenseData sheetsData = detectFinancialData sheetsData False"

subsection \<open>calculateFinancialMetrics\<close>

record FinancialMetrics =
  revenue :: jsnum
  expenses :: jsnum
  profit :: jsnum
  profitMargin :: jsnum
  revenueStreams :: nat
  expenseCategories :: nat


subsection \<open>generateAgriculturalSummaryCards\<close>

text \<open>
  A template literal is kept as its parts, the numbers unprinted.
\<close>

datatype part = Lit string | Num jsnum

record SummaryCard =
  title :: string
  cardValue :: jsnum      \<comment> \<open>the field \<open>value\<close>\<close>
  subtitle :: "part list"
  cardType :: string      \<comment> \<open>the field \<open>type\<close>\<close>
  cardTrend :: trend      \<comment> \<open>the field \<open>trend\<close>\<close>
  color :: string
  icon :: string

definition numOfNat :: "nat \<Rightarrow> jsnum" where
  "numOfNat n = Fin (of_nat n)"

definition totalRecordsOf :: "SheetsData \<Rightarrow> nat" where
  "totalRecordsOf sheetsData = foldl (\<lambda>acc sh. acc + length (rows sh)) 0 (map snd sheetsData)"

definition generateAgriculturalSummaryCards ::
  "(jsstring \<Rightarrow> int option) \<Rightarrow> int \<Rightarrow> SheetsData \<Rightarrow> SummaryCard list" where
  "generateAgriculturalSummaryCards dateParse now sheetsData =
     (let production = calculateProductionMetrics dateParse now sheetsData;
          quality = calculateHarvestMetrics sheetsData;
          rev = detectRevenueData sheetsData;
          exp = detectExpenseData sheetsData;
          p = jssub (total rev) (total exp);
          cards =
            [\<lparr> title = ''Total Revenue'', cardValue = total rev,
                subtitle = [Num (numOfNat (sources rev)), Lit '' revenue streams''],
                cardType = ''financial'', cardTrend = Neutral, color = ''green'',
                icon = ''TrendingUp'' \<rparr>,
             \<lparr> title = ''Total Expenses'', cardValue = total exp,
                subtitle = [Num (numOfNat (categories exp)), Lit '' expense categories''],
                cardType = ''financial'', cardTrend = Neutral, color = ''red'',
                icon = ''CreditCard'' \<rparr>,
             \<lparr> title = ''Net Profit'', cardValue = p,
                subtitle = [Lit (if jsge p (Fin 0) then ''Profitable'' else ''Loss'')],
                cardType = ''financial'',
                cardTrend = (if jsge p (Fin 0) then Positive else Negative),
                color = (if jsge p (Fin 0) then ''green'' else ''red''),
                icon = (if jsge p (Fin 0) then ''TrendingUp'' else ''TrendingDown'') \<rparr>,
             \<lparr> title = ''Active Batches'', cardValue = numOfNat (activeBatches production),
                subtitle = [Lit ''Currently growing''],
                cardType = ''production'', cardTrend = Neutral, color = ''blue'',
                icon = ''Package'' \<rparr>,
             \<lparr> title = ''Total Harvested'', cardValue = qualityTotalHarvested quality,
                subtitle = [Num (harvestEfficiency production), Lit ''% efficiency''],
                cardType = ''production'',
                cardTrend = (if jsge (harvestEfficiency production) (Fin 80)
                             then Positive else Neutral),
                color = ''orange'', icon = ''Truck'' \<rparr>,
             \<lparr> title = ''Quality Score'', cardValue = avgQualityScore quality,
                subtitle = [Num (rejectionRate quality), Lit ''% rejection rate''],
                cardType = ''quality'',
                cardTrend = (if jsge (avgQualityScore quality) (Fin 7) then Positive else Neutral),
                color = ''purple'', icon = ''Award'' \<rparr>];
          cards1 =
            (if totalDeliveries quality > 0
             then cards @
               [\<lparr> title = ''On-Time Delivery'', cardValue = onTimePercentage quality,
                   subtitle = [Num (numOfNat (onTimeDeliveries quality)), Lit ''/'',
                               Num (numOfNat (totalDeliveries quality)), Lit '' deliveries''],
                   cardType = ''logistics'',
                   cardTrend = (if jsge (onTimePercentage quality) (Fin 90)
                                then Positive else Neutral),
                   color = ''indigo'', icon = ''Clock'' \<rparr>]
             else cards)
      in cards1 @
           [\<lparr> title = ''Total Records'', cardValue = numOfNat (totalRecordsOf sheetsData),
               subtitle = [Num (numOfNat (length sheetsData)), Lit '' data sheets''],
               cardType = ''data'', cardTrend = Neutral, color = ''gray'',
               icon = ''FileText'' \<rparr>])"

subsection \<open>generateDynamicDashboard\<close>









section \<open>app/page.tsx at run time: the failures made explicit\<close>

text \<open>
  The definitions of the preceding section follow the declared type \<open>SheetsData\<close>, on
  which no property read of the page can fail. The type is not checked at run time:
  reading a property of \<open>null\<close> or \<open>undefined\<close> raises a \<open>TypeError\<close>, and so do
  \<open>Object.keys\<close>, \<open>Object.values\<close> and \<open>Object.entries\<close> of them. The definitions of this
  section follow the same sources over run-time snapshots, in which the snapshot, a
  sheet, the \<open>headers\<close> and the \<open>rows\<close> of a sheet and a row may each be \<open>null\<close> or
  \<open>undefined\<close> (\<open>None\<close>); every function returns the error it raises or its result, and
  the dashboard is the object that the object literals of the source build, a list of
  properties in which a property can be absent.
\<close>

datatype error = TypeError

record rawSheet =
  rawHeaders :: "jsstring list option"
  rawRows :: "row option list option"

type_synonym rawSheets = "(jsstring \<times> rawSheet option) list option"

text \<open>A snapshot of the declared type as a run-time value.\<close>

definition ofSheet :: "sheet \<Rightarrow> rawSheet" where
  "ofSheet sh = \<lparr> rawHeaders = Some (headers sh), rawRows = Some (map Some (rows sh)) \<rparr>"

definition ofSheetsData :: "SheetsData \<Rightarrow> rawSheets" where
  "ofSheetsData sheetsData = Some (map (\<lambda>entry. (fst entry, Some (ofSheet (snd entry)))) sheetsData)"

text \<open>Sequencing: the first error ends the computation.\<close>

definition bindE :: "error + 'a \<Rightarrow> ('a \<Rightarrow> error + 'b) \<Rightarrow> error + 'b" where
  "bindE m f = (case m of Inl e \<Rightarrow> Inl e | Inr x \<Rightarrow> f x)"

fun foldE :: "('b \<Rightarrow> 'a \<Rightarrow> error + 'b) \<Rightarrow> 'b \<Rightarrow> 'a list \<Rightarrow> error + 'b" where
  "foldE f acc [] = Inr acc"
| "foldE f acc (x # xs) = bindE (f acc x) (\<lambda>acc1. foldE f acc1 xs)"

fun filterE :: "('a \<Rightarrow> error + bool) \<Rightarrow> 'a list \<Rightarrow> error + 'a list" where
  "filterE p [] = Inr []"
| "filterE p (x # xs) =
     bindE (p x) (\<lambda>keep. bindE (filterE p xs) (\<lambda>ys. Inr (if keep then x # ys else ys)))"

fun mapE :: "('a \<Rightarrow> error + 'b) \<Rightarrow> 'a list \<Rightarrow> error + 'b list" where
  "mapE f [] = Inr []"
| "mapE f (x # xs) = bindE (f x) (\<lambda>y. bindE (mapE f xs) (\<lambda>ys. Inr (y # ys)))"

text \<open>\<open>Object.entries(sheetsData)\<close>, \<open>Object.keys(sheetsData)\<close>, \<open>Object.values(sheetsData)\<close>\<close>

definition objectEntries :: "rawSheets \<Rightarrow> error + (jsstring \<times> rawSheet option) list" where
  "objectEntries sheetsData =
     (case sheetsData of None \<Rightarrow> Inl TypeError | Some entries \<Rightarrow> Inr entries)"

definition objectKeys :: "rawSheets \<Rightarrow> error + jsstring list" where
  "objectKeys sheetsData = bindE (objectEntries sheetsData) (\<lambda>entries. Inr (map fst entries))"

definition objectValues :: "rawSheets \<Rightarrow> error + rawSheet option list" where
  "objectValues sheetsData = bindE (objectEntries sheetsData) (\<lambda>entries. Inr (map snd entries))"

text \<open>
  \<open>sheetsData?.<name>?.rows || []\<close>: the optional chain gives \<open>undefined\<close> for a missing
  snapshot, a missing sheet and missing rows, and \<open>||\<close> replaces it by the empty array.
\<close>

definition rowsOrEmpty :: "rawSheets \<Rightarrow> jsstring \<Rightarrow> row option list" where
  "rowsOrEmpty sheetsData name =
     (case sheetsData of
        None \<Rightarrow> []
      | Some entries \<Rightarrow>
          (case map_of entries name of
             None \<Rightarrow> []
           | Some None \<Rightarrow> []
           | Some (Some sheetData) \<Rightarrow>
               (case rawRows sheetData of None \<Rightarrow> [] | Some rs \<Rightarrow> rs)))"

text \<open>
  \<open>tryFieldNames(row, fieldNames)\<close>: the first pass of the loop reads \<open>row[field]\<close>, which
  raises for a missing row.
\<close>

fun tryFieldNamesE :: "row option \<Rightarrow> jsstring list \<Rightarrow> error + jsnum" where
  "tryFieldNamesE row [] = Inr (Fin 0)"
| "tryFieldNamesE None (field # fieldNames) = Inl TypeError"
| "tryFieldNamesE (Some r) (field # fieldNames) = Inr (tryFieldNames r (field # fieldNames))"

subsection \<open>calculateProductionMetrics\<close>

text \<open>
  The callback of \<open>batches.filter\<close> reads \<open>row.ExpectedHarvest\<close> before its \<open>try\<close> block.
  The function prints \<open>Object.keys(sheetsData).join(', ')\<close> to the console before it
  filters.
\<close>

definition isActiveBatchE ::
  "(jsstring \<Rightarrow> int option) \<Rightarrow> int \<Rightarrow> row option \<Rightarrow> error + bool" where
  "isActiveBatchE dateParse now row =
     (case row of None \<Rightarrow> Inl TypeError | Some r \<Rightarrow> Inr (isActiveBatch dateParse now r))"

definition yieldStepE :: "jsnum \<Rightarrow> row option \<Rightarrow> error + jsnum" where
  "yieldStepE acc row =
     bindE (tryFieldNamesE row expectedYieldFields) (\<lambda>expected.
     bindE (tryFieldNamesE row revisedYieldFields) (\<lambda>revised.
     Inr (jsadd acc (if numTruthy revised then revised else expected))))"

definition harvestedStepE :: "jsnum \<Rightarrow> row option \<Rightarrow> error + jsnum" where
  "harvestedStepE acc row =
     bindE (tryFieldNamesE row harvestedFields) (\<lambda>harvested. Inr (jsadd acc harvested))"

definition calculateProductionMetricsE ::
  "(jsstring \<Rightarrow> int option) \<Rightarrow> int \<Rightarrow> rawSheets \<Rightarrow> error + ProductionMetrics" where
  "calculateProductionMetricsE dateParse now sheetsData =
     (let batches = rowsOrEmpty sheetsData (str ''Batches'');
          harvestLog = rowsOrEmpty sheetsData (str ''Harvest_Log'')
      in bindE (objectKeys sheetsData) (\<lambda>available.
         bindE (filterE (isActiveBatchE dateParse now) batches) (\<lambda>active.
         bindE (foldE yieldStepE (Fin 0) batches) (\<lambda>expectedTotal.
         bindE (foldE harvestedStepE (Fin 0) harvestLog) (\<lambda>harvestedTotal.
         Inr \<lparr> activeBatches = length active, totalExpectedYield = expectedTotal,
               totalHarvested = harvestedTotal,
               harvestEfficiency = (if jsgt expectedTotal (Fin 0)
                                    then percentOf 1 harvestedTotal expectedTotal
                                    else Fin 0) \<rparr>)))))"

subsection \<open>calculateHarvestMetrics\<close>

definition qualityStepE :: "qualityData \<Rightarrow> row option \<Rightarrow> error + qualityData" where
  "qualityStepE acc row =
     bindE (tryFieldNamesE row harvestedFields) (\<lambda>harvested.
     bindE (tryFieldNamesE row rejectedFields) (\<lambda>rejected.
     bindE (tryFieldNamesE row acceptedFields) (\<lambda>accepted.
     bindE (tryFieldNamesE row qcFields) (\<lambda>qc.
     Inr \<lparr> qdHarvested = jsadd (qdHarvested acc) harvested,
           qdRejected = jsadd (qdRejected acc) rejected,
           qdAccepted = jsadd (qdAccepted acc) accepted,
           qcScores = (if jsgt qc (Fin 0) then qcScores acc @ [qc] else qcScores acc) \<rparr>))))"

text \<open>The callback of \<open>postHarvest.filter\<close> reads \<open>row['OnTime(0/1)']\<close>.\<close>

definition isOnTimeE :: "row option \<Rightarrow> error + bool" where
  "isOnTimeE row =
     (case row of
        None \<Rightarrow> Inl TypeError
      | Some r \<Rightarrow> Inr (stringIsOne (getField r (str ''OnTime(0/1)''))))"

definition calculateHarvestMetricsE :: "rawSheets \<Rightarrow> error + QualityMetrics" where
  "calculateHarvestMetricsE sheetsData =
     (let harvestLog = rowsOrEmpty sheetsData (str ''Harvest_Log'');
          postHarvest = rowsOrEmpty sheetsData (str ''Post_Harvest'')
      in bindE (foldE qualityStepE
                  \<lparr> qdHarvested = Fin 0, qdRejected = Fin 0, qdAccepted = Fin 0, qcScores = [] \<rparr>
                  harvestLog) (\<lambda>qd.
         bindE (filterE isOnTimeE postHarvest) (\<lambda>onTimeRows.
         (let rejection = (if jsgt (qdHarvested qd) (Fin 0)
                           then percentOf 1 (qdRejected qd) (qdHarvested qd) else Fin 0);
              avgScore = (if length (qcScores qd) > 0
                          then toFixedParsed 1
                                 (fdiv (foldl jsadd (Fin 0) (qcScores qd))
                                       (Fin (of_nat (length (qcScores qd)))))
                          else Fin 0);
              onTime = length onTimeRows;
              deliveries = length postHarvest;
              onTimePct = (if deliveries > 0
                           then percentOf 1 (Fin (of_nat onTime)) (Fin (of_nat deliveries))
                           else Fin 0)
          in Inr \<lparr> rejectionRate = rejection, avgQualityScore = avgScore,
                   onTimePercentage = onTimePct, totalDeliveries = deliveries,
                   onTimeDeliveries = onTime, qualityTotalHarvested = qdHarvested qd \<rparr>))))"

subsection \<open>detectSheetType\<close>

text \<open>
  \<open>headers.some(...)\<close> raises when \<open>headers\<close> is missing; it is called for the first
  header candidate of a table entry, so an entry without header candidates does not
  reach it.
\<close>

fun detectSheetTypeLoopE ::
  "(string \<times> sheetTypeConfig) list \<Rightarrow> jsstring \<Rightarrow> jsstring list option \<Rightarrow> error + string" where
  "detectSheetTypeLoopE [] nameUpper hs = Inr ''general''"
| "detectSheetTypeLoopE ((type, config) # rest) nameUpper hs =
     (let hasKeyword = list_ex (\<lambda>keyword. str_includes nameUpper keyword) (configKeywords config)
      in bindE (case hs of
                  None \<Rightarrow> if configHeaders config = [] then Inr False else Inl TypeError
                | Some present \<Rightarrow>
                    Inr (list_ex (\<lambda>header. list_ex (\<lambda>h. h \<noteq> [] \<and> str_includes h header) present)
                                 (configHeaders config)))
           (\<lambda>hasHeader. if hasKeyword \<or> hasHeader then Inr type
                         else detectSheetTypeLoopE rest nameUpper hs))"

definition detectSheetTypeE :: "jsstring \<Rightarrow> jsstring list option \<Rightarrow> error + string" where
  "detectSheetTypeE name hs = detectSheetTypeLoopE SHEET_TYPE_CONFIG (toUpperCase name) hs"

definition getSheetColorE :: "jsstring \<Rightarrow> jsstring list option \<Rightarrow> error + string" where
  "getSheetColorE name hs =
     bindE (detectSheetTypeE name hs) (\<lambda>type.
     Inr (case map_of SHEET_TYPE_CONFIG type of
            None \<Rightarrow> ''slate'' | Some config \<Rightarrow> configColor config))"

definition getSheetIconE :: "jsstring \<Rightarrow> jsstring list option \<Rightarrow> error + jsstring" where
  "getSheetIconE name hs =
     bindE (detectSheetTypeE name hs) (\<lambda>type.
     Inr (case map_of SHEET_TYPE_CONFIG type of
            None \<Rightarrow> [55357, 56516] | Some config \<Rightarrow> configIcon config))"

subsection \<open>detectFinancialData\<close>

text \<open>
  \<open>if (!sheetData?.rows?.length || !sheetData.headers) return;\<close> skips a missing sheet,
  missing or empty rows and missing headers. In the loop over the rows, the first
  relevant column reads \<open>row[col]\<close>.
\<close>

definition rowStepE :: "jsstring list \<Rightarrow> finState \<Rightarrow> row option \<Rightarrow> error + finState" where
  "rowStepE cols st row =
     (if cols = [] then Inr st
      else case row of None \<Rightarrow> Inl TypeError | Some r \<Rightarrow> Inr (rowStep cols st r))"

definition sheetStepE ::
  "bool \<Rightarrow> finState \<Rightarrow> jsstring \<times> rawSheet option \<Rightarrow> error + finState" where
  "sheetStepE isRevenue st entry =
     (case snd entry of
        None \<Rightarrow> Inr st
      | Some sheetData \<Rightarrow>
          (case rawRows sheetData of
             None \<Rightarrow> Inr st
           | Some rs \<Rightarrow>
               if rs = [] then Inr st
               else (case rawHeaders sheetData of
                       None \<Rightarrow> Inr st
                     | Some hs \<Rightarrow>
                         (let cols = relevantColumns isRevenue hs
                          in if length cols > 0
                             then foldE (rowStepE cols) (st \<lparr> fsSources := fsSources st + 1 \<rparr>) rs
                             else Inr st))))"

definition detectFinancialDataE :: "rawSheets \<Rightarrow> bool \<Rightarrow> error + FinancialData" where
  "detectFinancialDataE sheetsData isRevenue =
     bindE (objectEntries sheetsData) (\<lambda>entries.
     bindE (foldE (sheetStepE isRevenue) finInit entries) (\<lambda>st.
     Inr \<lparr> total = fsTotal st, sources = fsSources st, categories = length (fsCategories st),
           records = fsRecords st, fdTrend = Neutral \<rparr>))"

definition detectRevenueDataE :: "rawSheets \<Rightarrow> error + FinancialData" where
  "detectRevenueDataE sheetsData = detectFinancialDataE sheetsData True"

definition detectExpenseDataE :: "rawSheets \<Rightarrow> error + FinancialData" where
  "detectExpenseDataE sheetsData = detectFinancialDataE sheetsData False"

definition calculateFinancialMetricsE :: "rawSheets \<Rightarrow> error + FinancialMetrics" where
  "calculateFinancialMetricsE sheetsData =
     bindE (detectRevenueDataE sheetsData) (\<lambda>rev.
     bindE (detectExpenseDataE sheetsData) (\<lambda>exp.
     (let p = jssub (total rev) (total exp);
          margin = (if jsgt (total rev) (Fin 0) then percentOf 2 p (total rev) else Fin 0)
      in Inr \<lparr> revenue = total rev, expenses = total exp, profit = p, profitMargin = margin,
               revenueStreams = sources rev, expenseCategories = categories exp \<rparr>)))"

subsection \<open>generateAgriculturalSummaryCards\<close>

text \<open>
  \<open>Object.values(sheetsData).reduce((sum, sheet) => sum + sheet.rows.length, 0)\<close> reads
  \<open>sheet.rows\<close> and then its \<open>length\<close>.
\<close>

definition recordsStepE :: "nat \<Rightarrow> rawSheet option \<Rightarrow> error + nat" where
  "recordsStepE acc sheetData =
     (case sheetData of
        None \<Rightarrow> Inl TypeError
      | Some data \<Rightarrow> (case rawRows data of None \<Rightarrow> Inl TypeError | Some rs \<Rightarrow> Inr (acc + length rs)))"

definition totalRecordsE :: "rawSheets \<Rightarrow> error + nat" where
  "totalRecordsE sheetsData = bindE (objectValues sheetsData) (foldE recordsStepE 0)"

text \<open>The cards, from the values the function has computed.\<close>

definition summaryCardsOf ::
  "ProductionMetrics \<Rightarrow> QualityMetrics \<Rightarrow> FinancialData \<Rightarrow> FinancialData \<Rightarrow> nat \<Rightarrow> nat
     \<Rightarrow> SummaryCard list" where
  "summaryCardsOf production quality revenueData expenseData allRecords sheetCount =
     (let p = jssub (total revenueData) (total expenseData);
          cards =
            [\<lparr> title = ''Total Revenue'', cardValue = total revenueData,
                subtitle = [Num (numOfNat (sources revenueData)), Lit '' revenue streams''],
                cardType = ''financial'', cardTrend = Neutral, color = ''green'',
                icon = ''TrendingUp'' \<rparr>,
             \<lparr> title = ''Total Expenses'', cardValue = total expenseData,
                subtitle = [Num (numOfNat (categories expenseData)), Lit '' expense categories''],
                cardType = ''financial'', cardTrend = Neutral, color = ''red'',
                icon = ''CreditCard'' \<rparr>,
             \<lparr> title = ''Net Profit'', cardValue = p,
                subtitle = [Lit (if jsge p (Fin 0) then ''Profitable'' else ''Loss'')],
                cardType = ''financial'',
                cardTrend = (if jsge p (Fin 0) then Positive else Negative),
                color = (if jsge p (Fin 0) then ''green'' else ''red''),
                icon = (if jsge p (Fin 0) then ''TrendingUp'' else ''TrendingDown'') \<rparr>,
             \<lparr> title = ''Active Batches'', cardValue = numOfNat (activeBatches production),
                subtitle = [Lit ''Currently growing''],
                cardType = ''production'', cardTrend = Neutral, color = ''blue'',
                icon = ''Package'' \<rparr>,
             \<lparr> title = ''Total Harvested'', cardValue = qualityTotalHarvested quality,
                subtitle = [Num (harvestEfficiency production), Lit ''% efficiency''],
                cardType = ''production'',
                cardTrend = (if jsge (harvestEfficiency production) (Fin 80)
                             then Positive else Neutral),
                color = ''orange'', icon = ''Truck'' \<rparr>,
             \<lparr> title = ''Quality Score'', cardValue = avgQualityScore quality,
                subtitle = [Num (rejectionRate quality), Lit ''% rejection rate''],
                cardType = ''quality'',
                cardTrend = (if jsge (avgQualityScore quality) (Fin 7) then Positive else Neutral),
                color = ''purple'', icon = ''Award'' \<rparr>];
          cards1 =
            (if totalDeliveries quality > 0
             then cards @
               [\<lparr> title = ''On-Time Delivery'', cardValue = onTimePercentage quality,
                   subtitle = [Num (numOfNat (onTimeDeliveries quality)), Lit ''/'',
                               Num (numOfNat (totalDeliveries quality)), Lit '' deliveries''],
                   cardType = ''logistics'',
                   cardTrend = (if jsge (onTimePercentage quality) (Fin 90)
                                then Positive else Neutral),
                   color = ''indigo'', icon = ''Clock'' \<rparr>]
             else cards)
      in cards1 @
           [\<lparr> title = ''Total Records'', cardValue = numOfNat allRecords,
               subtitle = [Num (numOfNat sheetCount), Lit '' data sheets''],
               cardType = ''data'', cardTrend = Neutral, color = ''gray'',
               icon = ''FileText'' \<rparr>])"

definition generateAgriculturalSummaryCardsE ::
  "(jsstring \<Rightarrow> int option) \<Rightarrow> int \<Rightarrow> rawSheets \<Rightarrow> error + SummaryCard list" where
  "generateAgriculturalSummaryCardsE dateParse now sheetsData =
     bindE (calculateProductionMetricsE dateParse now sheetsData) (\<lambda>production.
     bindE (calculateHarvestMetricsE sheetsData) (\<lambda>quality.
     bindE (detectRevenueDataE sheetsData) (\<lambda>rev.
     bindE (detectExpenseDataE sheetsData) (\<lambda>exp.
     bindE (totalRecordsE sheetsData) (\<lambda>allRecords.
     bindE (objectKeys sheetsData) (\<lambda>names.
     Inr (summaryCardsOf production quality rev exp allRecords (length names))))))))"

subsection \<open>The dashboard object\<close>

text \<open>
  A value of the result: a property list for an object, a list for an array. A template
  literal is kept as its parts and the ISO string of the clock as its instant. Reading
  a property that an object does not have gives \<open>undefined\<close>.
\<close>

datatype jstree =
    JUndefined
  | JNull
  | JNum jsnum
  | JStr jsstring
  | JTemplate "part list"
  | JInstant int
  | JArr "jstree list"
  | JObj "(jsstring \<times> jstree) list"

fun getProp :: "jstree \<Rightarrow> jsstring \<Rightarrow> jstree" where
  "getProp (JObj props) key = (case map_of props key of None \<Rightarrow> JUndefined | Some v \<Rightarrow> v)"
| "getProp t key = JUndefined"

definition getPath :: "jstree \<Rightarrow> jsstring list \<Rightarrow> jstree" where
  "getPath t path = foldl getProp t path"

fun isNumber :: "jstree \<Rightarrow> bool" where
  "isNumber (JNum x) = True"
| "isNumber t = False"

fun isArray :: "jstree \<Rightarrow> bool" where
  "isArray (JArr ts) = True"
| "isArray t = False"

fun elements :: "jstree \<Rightarrow> jstree list" where
  "elements (JArr ts) = ts"
| "elements t = []"

fun cellTree :: "jsval \<Rightarrow> jstree" where
  "cellTree VUndefined = JUndefined"
| "cellTree VNull = JNull"
| "cellTree (VNum x) = JNum x"
| "cellTree (VStr s) = JStr s"

definition rowTree :: "row \<Rightarrow> jstree" where
  "rowTree r = JObj (map (\<lambda>cell. (fst cell, cellTree (snd cell))) r)"

definition rowOptionTree :: "row option \<Rightarrow> jstree" where
  "rowOptionTree row = (case row of None \<Rightarrow> JNull | Some r \<Rightarrow> rowTree r)"

definition headersTree :: "jsstring list option \<Rightarrow> jstree" where
  "headersTree hs = (case hs of None \<Rightarrow> JUndefined | Some present \<Rightarrow> JArr (map JStr present))"

definition rawSheetTree :: "rawSheet option \<Rightarrow> jstree" where
  "rawSheetTree sheetData =
     (case sheetData of
        None \<Rightarrow> JNull
      | Some data \<Rightarrow>
          JObj [(str ''headers'', headersTree (rawHeaders data)),
                (str ''rows'', (case rawRows data of
                                  None \<Rightarrow> JUndefined
                                | Some rs \<Rightarrow> JArr (map rowOptionTree rs)))])"

definition rawSheetsTree :: "rawSheets \<Rightarrow> jstree" where
  "rawSheetsTree sheetsData =
     (case sheetsData of
        None \<Rightarrow> JNull
      | Some entries \<Rightarrow> JObj (map (\<lambda>entry. (fst entry, rawSheetTree (snd entry))) entries))"

fun trendName :: "trend \<Rightarrow> string" where
  "trendName Neutral = ''neutral''"
| "trendName Positive = ''positive''"
| "trendName Negative = ''negative''"

text \<open>
  \<open>return { activeBatches, totalExpectedYield, totalHarvested, harvestEfficiency };\<close> and
  the other object literals that the aggregators return.
\<close>

definition productionTree :: "ProductionMetrics \<Rightarrow> jstree" where
  "productionTree production =
     JObj [(str ''activeBatches'', JNum (numOfNat (activeBatches production))),
           (str ''totalExpectedYield'', JNum (totalExpectedYield production)),
           (str ''totalHarvested'', JNum (totalHarvested production)),
           (str ''harvestEfficiency'', JNum (harvestEfficiency production))]"

definition qualityTree :: "QualityMetrics \<Rightarrow> jstree" where
  "qualityTree quality =
     JObj [(str ''rejectionRate'', JNum (rejectionRate quality)),
           (str ''avgQualityScore'', JNum (avgQualityScore quality)),
           (str ''onTimePercentage'', JNum (onTimePercentage quality)),
           (str ''totalDeliveries'', JNum (numOfNat (totalDeliveries quality))),
           (str ''onTimeDeliveries'', JNum (numOfNat (onTimeDeliveries quality))),
           (str ''totalHarvested'', JNum (qualityTotalHarvested quality))]"

definition financialDataTree :: "FinancialData \<Rightarrow> jstree" where
  "financialDataTree fd =
     JObj [(str ''total'', JNum (total fd)),
           (str ''sources'', JNum (numOfNat (sources fd))),
           (str ''categories'', JNum (numOfNat (categories fd))),
           (str ''records'', JNum (numOfNat (records fd))),
           (str ''trend'', JStr (str (trendName (fdTrend fd))))]"

definition financialMetricsTree :: "FinancialMetrics \<Rightarrow> jstree" where
  "financialMetricsTree financial =
     JObj [(str ''revenue'', JNum (revenue financial)),
           (str ''expenses'', JNum (expenses financial)),
           (str ''profit'', JNum (profit financial)),
           (str ''profitMargin'', JNum (profitMargin financial)),
           (str ''revenueStreams'', JNum (numOfNat (revenueStreams financial))),
           (str ''expenseCategories'', JNum (numOfNat (expenseCategories financial)))]"

definition cardTree :: "SummaryCard \<Rightarrow> jstree" where
  "cardTree c =
     JObj [(str ''title'', JStr (str (title c))),
           (str ''value'', JNum (cardValue c)),
           (str ''subtitle'', JTemplate (subtitle c)),
           (str ''type'', JStr (str (cardType c))),
           (str ''trend'', JStr (str (trendName (cardTrend c)))),
           (str ''color'', JStr (str (color c))),
           (str ''icon'', JStr (str (icon c)))]"

subsection \<open>generateDynamicDashboard\<close>

text \<open>
  One element of \<open>sheets\<close> and of \<open>sheetsConfig\<close>: \<open>data.headers\<close> and \<open>data.rows\<close> raise
  for a missing sheet, \<open>data.rows.length\<close> for missing rows, and \<open>detectSheetType\<close> for
  missing headers.
\<close>

definition rowsLengthE :: "rawSheet \<Rightarrow> error + nat" where
  "rowsLengthE data = (case rawRows data of None \<Rightarrow> Inl TypeError | Some rs \<Rightarrow> Inr (length rs))"

definition lastRecordTree :: "rawSheet \<Rightarrow> jstree" where
  "lastRecordTree data =
     (case rawRows data of
        None \<Rightarrow> JNull
      | Some rs \<Rightarrow> if length rs > 0 then rowOptionTree (last rs) else JNull)"

definition sheetInfoE :: "jsstring \<times> rawSheet option \<Rightarrow> error + jstree" where
  "sheetInfoE entry =
     (let name = fst entry
      in case snd entry of
           None \<Rightarrow> Inl TypeError
         | Some data \<Rightarrow>
             bindE (detectSheetTypeE name (rawHeaders data)) (\<lambda>type.
             bindE (rowsLengthE data) (\<lambda>count.
             bindE (getSheetColorE name (rawHeaders data)) (\<lambda>sheetColor.
             bindE (getSheetIconE name (rawHeaders data)) (\<lambda>sheetIcon.
             Inr (JObj [(str ''name'', JStr name),
                        (str ''type'', JStr (str type)),
                        (str ''records'', JNum (numOfNat count)),
                        (str ''headers'', headersTree (rawHeaders data)),
                        (str ''color'', JStr (str sheetColor)),
                        (str ''icon'', JStr sheetIcon),
                        (str ''lastRecord'', lastRecordTree data)]))))))"

text \<open>\<open>data.headers.slice(0, 3)\<close>\<close>

definition keyColumnsE :: "rawSheet \<Rightarrow> error + jstree" where
  "keyColumnsE data =
     (case rawHeaders data of
        None \<Rightarrow> Inl TypeError
      | Some hs \<Rightarrow> Inr (JArr (map JStr (take 3 hs))))"

definition sheetConfigE :: "jsstring \<times> rawSheet option \<Rightarrow> error + jstree" where
  "sheetConfigE entry =
     (let name = fst entry
      in case snd entry of
           None \<Rightarrow> Inl TypeError
         | Some data \<Rightarrow>
             bindE (detectSheetTypeE name (rawHeaders data)) (\<lambda>type.
             bindE (getSheetIconE name (rawHeaders data)) (\<lambda>sheetIcon.
             bindE (getSheetColorE name (rawHeaders data)) (\<lambda>sheetColor.
             bindE (rowsLengthE data) (\<lambda>count.
             bindE (keyColumnsE data) (\<lambda>keys.
             Inr (JObj [(str ''name'', JStr name),
                        (str ''type'', JStr (str type)),
                        (str ''icon'', JStr sheetIcon),
                        (str ''color'', JStr (str sheetColor)),
                        (str ''recordCount'', JNum (numOfNat count)),
                        (str ''headers'', headersTree (rawHeaders data)),
                        (str ''keyColumns'', keys),
                        (str ''metrics'', JObj [])])))))))"

definition generateDynamicDashboardE ::
  "(jsstring \<Rightarrow> int option) \<Rightarrow> int \<Rightarrow> rawSheets \<Rightarrow> error + jstree" where
  "generateDynamicDashboardE dateParse now sheetsData =
     bindE (calculateProductionMetricsE dateParse now sheetsData) (\<lambda>production.
     bindE (calculateHarvestMetricsE sheetsData) (\<lambda>quality.
     bindE (calculateFinancialMetricsE sheetsData) (\<lambda>financial.
     bindE (totalRecordsE sheetsData) (\<lambda>allRecords.
     bindE (objectKeys sheetsData) (\<lambda>names.
     bindE (detectRevenueDataE sheetsData) (\<lambda>rev.
     bindE (detectExpenseDataE sheetsData) (\<lambda>exp.
     bindE (generateAgriculturalSummaryCardsE dateParse now sheetsData) (\<lambda>cards.
     bindE (objectEntries sheetsData) (\<lambda>entries.
     bindE (mapE sheetInfoE entries) (\<lambda>sheetInfos.
     bindE (mapE sheetConfigE entries) (\<lambda>sheetConfigs.
     Inr (JObj
       [(str ''metadata'',
           JObj [(str ''title'', JStr (str ''Triton Food Works Masterbook'')),
                 (str ''totalSheets'', JNum (numOfNat (length names))),
                 (str ''totalRecords'', JNum (numOfNat allRecords)),
                 (str ''lastUpdated'', JInstant now),
                 (str ''businessType'', JStr (str ''Agriculture & Food Processing'')),
                 (str ''connectionStatus'', JStr (str ''connected''))]),
        (str ''production'', productionTree production),
        (str ''quality'', qualityTree quality),
        (str ''revenue'', financialDataTree rev),
        (str ''expenses'', financialDataTree exp),
        (str ''summaryCards'', JArr (map cardTree cards)),
        (str ''financial'', financialMetricsTree financial),
        (str ''financialMetrics'', financialMetricsTree financial),
        (str ''operationalMetrics'',
           JObj [(str ''total'', JNum (numOfNat allRecords)),
                 (str ''active'', JNum (numOfNat (activeBatches production))),
                 (str ''completed'', JNum (Fin 0)),
                 (str ''pending'', JNum (Fin 0)),
                 (str ''completionRate'', JNum (Fin 0))]),
        (str ''sheets'', JArr sheetInfos),
        (str ''sheetsConfig'', JArr sheetConfigs),
        (str ''rawData'', rawSheetsTree sheetsData)]))))))))))))"

section \<open>components/ModernExcelDashboard.tsx: helpers of the table view\<close>

subsection \<open>isEmptyValue\<close>

text \<open>
  \<^verbatim>\<open>
  const EMPTY_VALUES = ['', null, undefined, 0, '0', 'N/A', 'n/a', 'na', 'NA', '-', 'null', 'undefined'];
  function isEmptyValue(value: any): boolean {
    if (EMPTY_VALUES.includes(value)) return true;
    if (typeof value === 'string') {
      const trimmed = value.trim().toLowerCase();
      return trimmed === '' || ['n/a', 'na', 'null', 'undefined', '-'].includes(trimmed);
    }
    return false;
  }
  \<close>
\<close>

definition EMPTY_VALUES :: "jsval list" where
  "EMPTY_VALUES =
     [VStr [], VNull, VUndefined, VNum (Fin 0), VStr (str ''0''), VStr (str ''N/A''),
      VStr (str ''n/a''), VStr (str ''na''), VStr (str ''NA''), VStr (str ''-''),
      VStr (str ''null''), VStr (str ''undefined'')]"

fun isEmptyValue :: "jsval \<Rightarrow> bool" where
  "isEmptyValue (VStr s) =
     (VStr s \<in> set EMPTY_VALUES \<or>
      (let trimmed = toLowerCase (trim s)
       in trimmed = [] \<or>
          trimmed \<in> set [str ''n/a'', str ''na'', str ''null'', str ''undefined'', str ''-'']))"
| "isEmptyValue v = (v \<in> set EMPTY_VALUES)"

subsection \<open>isExcelDate and formatDate\<close>

text \<open>
  \<^verbatim>\<open>
  function isExcelDate(value: any): boolean {
    const numValue = typeof value === 'string' ? parseFloat(value) : value;
    return typeof numValue === 'number' && !isNaN(numValue) && numValue > 30000 && numValue < 2958466;
  }
  \<close>
\<close>

text \<open>
  Here the number read from a string is the binary64 number that \<open>parseFloat\<close>
  returns: the decimal value of the literal, rounded.
\<close>

definition parseFloat64 :: "jsstring \<Rightarrow> jsnum" where
  "parseFloat64 s = roundNum (parseFloat s)"

fun isExcelDate :: "jsval \<Rightarrow> bool" where
  "isExcelDate (VStr s) =
     (let numValue = parseFloat64 s
      in \<not> isNaN numValue \<and> jsgt numValue (Fin 30000) \<and> jsgt (Fin 2958466) numValue)"
| "isExcelDate (VNum numValue) =
     (\<not> isNaN numValue \<and> jsgt numValue (Fin 30000) \<and> jsgt (Fin 2958466) numValue)"
| "isExcelDate _ = False"

text \<open>
  \<open>new Date(Date.UTC(1970, 0, 1) + (numValue - 25569) * 86400 * 1000)\<close>;
  \<open>Date.UTC(1970, 0, 1)\<close> is 0. The difference, the two products and the sum are each
  rounded to binary64 before the \<open>Date\<close> cuts the result to a whole millisecond.
\<close>

definition serialToDate :: "jsnum \<Rightarrow> int option" where
  "serialToDate numValue =
     timeClip (fadd (Fin 0) (fmul (fmul (fsub numValue (Fin 25569)) (Fin 86400)) (Fin 1000)))"

definition getUTCHours :: "int \<Rightarrow> int" where
  "getUTCHours t = (t div 3600000) mod 24"

definition getUTCMinutes :: "int \<Rightarrow> int" where
  "getUTCMinutes t = (t div 60000) mod 60"

text \<open>
  What \<open>formatDate\<close> returns: the text of the value itself when the date is invalid,
  otherwise the instant printed by the \<open>en-GB\<close> locale in UTC, with or without the time
  of day. The printing is the runtime's; the result keeps the instant and the choice.
\<close>

datatype formatted = Unformatted jsval | DateOnly int | DateAndTime int

definition formatDateOf :: "(jsstring \<Rightarrow> int option) \<Rightarrow> jsval \<Rightarrow> int option" where
  "formatDateOf dateParse v =
     (case v of
        VStr s \<Rightarrow>
          (let numValue = parseFloat64 s
           in if \<not> isNaN numValue \<and> jsgt numValue (Fin 30000) then serialToDate numValue
              else newDate dateParse (VStr s))
      | VNum x \<Rightarrow> serialToDate x
      | _ \<Rightarrow> newDate dateParse v)"

definition formatDate :: "(jsstring \<Rightarrow> int option) \<Rightarrow> jsval \<Rightarrow> formatted" where
  "formatDate dateParse v =
     (case formatDateOf dateParse v of
        None \<Rightarrow> Unformatted v
      | Some date \<Rightarrow>
          (let hours = getUTCHours date; minutes = getUTCMinutes date;
               hasTime = (hours \<noteq> 0 \<or> minutes \<noteq> 0)
           in if hasTime then DateAndTime date else DateOnly date))"

subsection \<open>hasMinimalContent\<close>

definition importantFields :: "jsstring list" where
  "importantFields =
     [str ''BatchID'', str ''Date'', str ''Employee'', str ''Vendor'', str ''Description'',
      str ''Amount'', str ''Cost'', str ''QtyHarvested'']"

definition junkTokens :: "jsstring list" where
  "junkTokens = [str ''tbd'', str ''tbc'', str ''pending'', str ''temp'', str ''test'', str ''na'', str ''n/a'']"

text \<open>
  The two \<open>continue\<close> tests at the head of the loop body: the value is empty, or it is a
  string that is at most one character long after trimming or is a filler token.
\<close>

definition skipped :: "jsval \<Rightarrow> bool" where
  "skipped v =
     (isEmptyValue v \<or>
      (case v of
         VStr s \<Rightarrow> (let trimmed = trim s
                     in length trimmed \<le> 1 \<or> toLowerCase trimmed \<in> set junkTokens)
       | _ \<Rightarrow> False))"

definition isImportantField :: "jsstring \<Rightarrow> bool" where
  "isImportantField key =
     (let fieldLower = toLowerCase key
      in list_ex (\<lambda>field. str_includes fieldLower (toLowerCase field) \<or> fieldLower = toLowerCase field)
                 importantFields
         \<or> str_includes fieldLower (str ''id'')
         \<or> str_includes fieldLower (str ''name'')
         \<or> str_includes fieldLower (str ''amount'')
         \<or> str_includes fieldLower (str ''qty'')
         \<or> str_includes fieldLower (str ''price'')
         \<or> str_includes fieldLower (str ''cost''))"

text \<open>
  The loop over \<open>Object.keys(record)\<close>, carrying \<open>meaningfulCount\<close> and
  \<open>hasImportantField\<close>.
\<close>

fun contentLoop :: "row \<Rightarrow> nat \<Rightarrow> bool \<Rightarrow> nat \<times> bool" where
  "contentLoop [] meaningfulCount hasImportantField = (meaningfulCount, hasImportantField)"
| "contentLoop ((key, v) # rest) meaningfulCount hasImportantField =
     (if skipped v then contentLoop rest meaningfulCount hasImportantField
      else contentLoop rest (meaningfulCount + 1)
             (if isImportantField key \<and> \<not> isEmptyValue v then True else hasImportantField))"

definition hasMinimalContent :: "row \<Rightarrow> bool" where
  "hasMinimalContent record =
     (let (meaningfulCount, hasImportantField) = contentLoop record 0 False
      in meaningfulCount \<ge> 2 \<and> hasImportantField)"

section \<open>The real-time client page: extractNumericValue and the totals that consume it\<close>

text \<open>
  \<^verbatim>\<open>
  function extractNumericValue(row: any, fieldNames: string[]): number {
    for (const fieldName of fieldNames) {
      if (row[fieldName] !== undefined && row[fieldName] !== null) {
        const value = typeof row[fieldName] === 'string' ?
          parseFloat(row[fieldName].replace(/[^\d.-]/g, '')) :
          Number(row[fieldName]);
        if (!isNaN(value) && isFinite(value)) {
          return Math.abs(value); // Return absolute value for safety
        }
      }
    }
    return 0;
  }
  \<close>
\<close>

definition keptChar :: "jschar \<Rightarrow> bool" where
  "keptChar c = (isDigit c \<or> c = 46 \<or> c = 45)"

fun fieldNumber :: "jsval \<Rightarrow> jsnum" where
  "fieldNumber (VStr s) = parseFloat64 (filter keptChar s)"
| "fieldNumber (VNum x) = x"
| "fieldNumber _ = NaN"

fun extractNumericValue :: "row \<Rightarrow> jsstring list \<Rightarrow> jsnum" where
  "extractNumericValue r [] = Fin 0"
| "extractNumericValue r (fieldName # fieldNames) =
     (if getField r fieldName \<noteq> VUndefined \<and> getField r fieldName \<noteq> VNull
      then (let v = fieldNumber (getField r fieldName)
            in if \<not> isNaN v \<and> isFinite v then mathAbs v
               else extractNumericValue r fieldNames)
      else extractNumericValue r fieldNames)"

text \<open>
  The client page receives \<open>sheetsData: any\<close> and processes a sheet only when
  \<open>Array.isArray(sheetsData[sheetName])\<close>.
\<close>

datatype sheetValue = RowArray "row list" | NotAnArray

type_synonym clientSheets = "(jsstring \<times> sheetValue) list"

definition nameHasAny :: "jsstring list \<Rightarrow> jsstring \<Rightarrow> bool" where
  "nameHasAny words name = list_ex (\<lambda>w. str_includes (toLowerCase name) w) words"

definition revenueSheetWords :: "jsstring list" where
  "revenueSheetWords = [str ''revenue'', str ''income'', str ''sales'', str ''earnings'']"

definition expenseSheetWords :: "jsstring list" where
  "expenseSheetWords = [str ''expense'', str ''cost'', str ''expenditure'', str ''spending'']"

definition productionSheetWords :: "jsstring list" where
  "productionSheetWords = [str ''production'', str ''harvest'', str ''batch'', str ''crop'']"

definition qualitySheetWords :: "jsstring list" where
  "qualitySheetWords = [str ''quality'', str ''inspection'', str ''delivery'', str ''logistics'']"

definition revenueAmountFields :: "jsstring list" where
  "revenueAmountFields = [str ''amount'', str ''revenue'', str ''income'', str ''value'', str ''total'']"

definition expenseAmountFields :: "jsstring list" where
  "expenseAmountFields = [str ''amount'', str ''expense'', str ''cost'', str ''value'', str ''total'']"

text \<open>
  The revenue loop and the expense loop have the same body, over different candidate
  fields:
  \<^verbatim>\<open>
  const amount = extractNumericValue(row, [...]);
  if (amount > 0) { totalRevenue += amount; revenueStreams++; ... }
  \<close>
  The state is the running total and the count of rows that were added; the set of
  category names, which no total depends on, is not carried.
\<close>

record moneyState =
  msTotal :: jsnum
  msCount :: nat
  msRecords :: nat

definition moneyRowStep :: "jsstring list \<Rightarrow> moneyState \<Rightarrow> row \<Rightarrow> moneyState" where
  "moneyRowStep names st r =
     (let amount = extractNumericValue r names
      in if jsgt amount (Fin 0)
         then st \<lparr> msTotal := fadd (msTotal st) amount, msCount := msCount st + 1 \<rparr>
         else st)"

definition moneySheetStep :: "jsstring list \<Rightarrow> moneyState \<Rightarrow> sheetValue \<Rightarrow> moneyState" where
  "moneySheetStep names st data =
     (case data of
        RowArray rs \<Rightarrow>
          foldl (moneyRowStep names) (st \<lparr> msRecords := msRecords st + length rs \<rparr>) rs
      | NotAnArray \<Rightarrow> st)"

definition moneyInit :: moneyState where
  "moneyInit = \<lparr> msTotal = Fin 0, msCount = 0, msRecords = 0 \<rparr>"

definition selectSheets :: "jsstring list \<Rightarrow> clientSheets \<Rightarrow> sheetValue list" where
  "selectSheets words sheetsData = map snd (filter (\<lambda>e. nameHasAny words (fst e)) sheetsData)"

definition clientRevenue :: "clientSheets \<Rightarrow> moneyState" where
  "clientRevenue sheetsData =
     foldl (moneySheetStep revenueAmountFields) moneyInit (selectSheets revenueSheetWords sheetsData)"

definition clientExpenses :: "clientSheets \<Rightarrow> moneyState" where
  "clientExpenses sheetsData =
     foldl (moneySheetStep expenseAmountFields) moneyInit (selectSheets expenseSheetWords sheetsData)"

text \<open>
  The yield sums of the production sheets:
  \<^verbatim>\<open>
  totalExpectedYield += extractNumericValue(row, ['expected_yield', 'expectedYield', 'target_yield', 'planned_yield']);
  totalHarvested += extractNumericValue(row, ['harvested', 'actual_yield', 'harvest_amount', 'yield']);
  \<close>
\<close>

definition expectedYieldNames :: "jsstring list" where
  "expectedYieldNames =
     [str ''expected_yield'', str ''expectedYield'', str ''target_yield'', str ''planned_yield'']"

definition harvestedNames :: "jsstring list" where
  "harvestedNames = [str ''harvested'', str ''actual_yield'', str ''harvest_amount'', str ''yield'']"

definition yieldRowStep :: "jsnum \<times> jsnum \<Rightarrow> row \<Rightarrow> jsnum \<times> jsnum" where
  "yieldRowStep st r =
     (fadd (fst st) (extractNumericValue r expectedYieldNames),
      fadd (snd st) (extractNumericValue r harvestedNames))"

definition yieldSheetStep :: "jsnum \<times> jsnum \<Rightarrow> sheetValue \<Rightarrow> jsnum \<times> jsnum" where
  "yieldSheetStep st data =
     (case data of RowArray rs \<Rightarrow> foldl yieldRowStep st rs | NotAnArray \<Rightarrow> st)"

definition clientYields :: "clientSheets \<Rightarrow> jsnum \<times> jsnum" where
  "clientYields sheetsData =
     foldl yieldSheetStep (Fin 0, Fin 0) (selectSheets productionSheetWords sheetsData)"

text \<open>
  The quality sums:
  \<^verbatim>\<open>
  const qualityScore = extractNumericValue(row, ['quality_score', 'qualityScore', 'inspection_score', 'grade']);
  if (qualityScore > 0) { qualityScores.push(qualityScore); }
  const rejected = extractNumericValue(row, ['rejected', 'rejection_count', 'failed_inspection']);
  const total = extractNumericValue(row, ['total_items', 'batch_size', 'quantity']);
  rejectedItems += rejected;
  totalItems += total;
  \<close>
\<close>

record qualitySums =
  qualityScores :: "jsnum list"
  rejectedItems :: jsnum
  totalItems :: jsnum

definition qualityScoreNames :: "jsstring list" where
  "qualityScoreNames =
     [str ''quality_score'', str ''qualityScore'', str ''inspection_score'', str ''grade'']"

definition rejectedNames :: "jsstring list" where
  "rejectedNames = [str ''rejected'', str ''rejection_count'', str ''failed_inspection'']"

definition totalItemNames :: "jsstring list" where
  "totalItemNames = [str ''total_items'', str ''batch_size'', str ''quantity'']"

definition qualityRowStep :: "qualitySums \<Rightarrow> row \<Rightarrow> qualitySums" where
  "qualityRowStep st r =
     (let qualityScore = extractNumericValue r qualityScoreNames;
          rejected = extractNumericValue r rejectedNames;
          tot = extractNumericValue r totalItemNames
      in \<lparr> qualityScores = (if jsgt qualityScore (Fin 0) then qualityScores st @ [qualityScore]
                               else qualityScores st),
           rejectedItems = fadd (rejectedItems st) rejected,
           totalItems = fadd (totalItems st) tot \<rparr>)"

definition qualitySheetStep :: "qualitySums \<Rightarrow> sheetValue \<Rightarrow> qualitySums" where
  "qualitySheetStep st data =
     (case data of RowArray rs \<Rightarrow> foldl qualityRowStep st rs | NotAnArray \<Rightarrow> st)"

definition clientQuality :: "clientSheets \<Rightarrow> qualitySums" where
  "clientQuality sheetsData =
     foldl qualitySheetStep \<lparr> qualityScores = [], rejectedItems = Fin 0, totalItems = Fin 0 \<rparr>
           (selectSheets qualitySheetWords sheetsData)"

section \<open>The specification's wording and examples\<close>

text \<open>
  The amount normaliser as the specification describes it: strip the comma and the
  currency signs (rupee, dollar, euro, pound, yen), strip a unit suffix \<open>kg\<close>, parse the
  rest as a floating-point literal, and return 0 on a parse failure and on \<open>null\<close> or
  \<open>undefined\<close>. It is compared with \<open>cleanNumericValue\<close> below.
\<close>

definition specStrippedChars :: "jschar list" where
  "specStrippedChars = [comma, rupee, dollar, euro, pound, yen]"

definition stripUnitSuffix :: "jsstring \<Rightarrow> jsstring" where
  "stripUnitSuffix s = (if suffix (str ''kg'') s then take (length s - 2) s else s)"

fun normalizeAmount_spec :: "jsval \<Rightarrow> jsnum" where
  "normalizeAmount_spec VNull = Fin 0"
| "normalizeAmount_spec VUndefined = Fin 0"
| "normalizeAmount_spec (VStr s) =
     orZero (parseFloat (stripUnitSuffix (filter (\<lambda>c. c \<notin> set specStrippedChars) s)))"
| "normalizeAmount_spec (VNum x) = orZero x"

text \<open>
  The classifier's match of one table entry as the specification words it: a keyword of
  the entry occurs in the upper-cased sheet name, or a header substring of the entry
  occurs in some header.
\<close>

definition entryMatches :: "sheetTypeConfig \<Rightarrow> jsstring \<Rightarrow> jsstring list \<Rightarrow> bool" where
  "entryMatches config nameUpper hs =
     ((\<exists>keyword \<in> set (configKeywords config). sublist keyword nameUpper) \<or>
      (\<exists>header \<in> set (configHeaders config). \<exists>h \<in> set hs. sublist header h))"

text \<open>
  The two rows of the specification's financial example, with the name of the
  descriptive field left open: the specification writes \<open>Category\<close>.
\<close>

definition salesRows :: "jsstring \<Rightarrow> row list" where
  "salesRows field =
     [[(field, VStr (str ''Sales'')), (str ''RevenueAmount'', VStr (rupee # str ''1,000''))],
      [(field, VStr (str ''Sales'')), (str ''RevenueAmount'', VStr (rupee # str ''2,000''))]]"

text \<open>
  The financial aggregator as the specification words it: a header matches a keyword
  set when its lower-cased text contains one of the keywords; the cells that count are
  the positive amounts in the relevant columns of every row of every sheet.
\<close>

definition hasKeyword :: "bool \<Rightarrow> jsstring \<Rightarrow> bool" where
  "hasKeyword isRevenue header =
     (\<exists>field \<in> set (searchFields isRevenue). sublist field (toLowerCase header))"

definition matchedCells :: "bool \<Rightarrow> SheetsData \<Rightarrow> jsnum list" where
  "matchedCells isRevenue sheetsData =
     concat (map (\<lambda>e. concat (map (\<lambda>r. filter (\<lambda>v. jsgt v (Fin 0))
                                         (map (\<lambda>col. cleanNumericValue (getField r col))
                                              (relevantColumns isRevenue (headers (snd e)))))
                                 (rows (snd e))))
                 sheetsData)"

text \<open>
  The meaningful fields of a record, as the quality filter counts them: the fields
  whose value is not empty, not a string of at most one character after trimming, and
  not a filler token.
\<close>

definition meaningfulFields :: "row \<Rightarrow> row" where
  "meaningfulFields record = filter (\<lambda>e. \<not> skipped (snd e)) record"

text \<open>
  The number that \<open>isExcelDate\<close> and \<open>formatDate\<close> read from a value: \<open>parseFloat\<close> of a
  string, a number itself.
\<close>

fun serialOf :: "jsval \<Rightarrow> jsnum" where
  "serialOf (VStr s) = parseFloat64 s"
| "serialOf (VNum x) = x"
| "serialOf _ = NaN"

text \<open>
  Two notions for the totals of the client page: \<open>finLe a b\<close> says that both numbers are
  finite and \<open>a\<close> is at most \<open>b\<close>; a candidate field is usable in a row when it is
  present, not \<open>null\<close>, and reads as a finite number.
\<close>

fun finLe :: "jsnum \<Rightarrow> jsnum \<Rightarrow> bool" where
  "finLe (Fin a) (Fin b) = (a \<le> b)"
| "finLe _ _ = False"

definition usable :: "row \<Rightarrow> jsstring \<Rightarrow> bool" where
  "usable r fieldName =
     (getField r fieldName \<noteq> VUndefined \<and> getField r fieldName \<noteq> VNull
      \<and> isFinite (fieldNumber (getField r fieldName)))"








text \<open>
  The rows the client page's loops visit for a list of sheet-name words: the rows of the
  selected sheets whose value is an array, in the order of the snapshot. The amounts
  read from them under a candidate list, and those that are \<open>> 0\<close>.
\<close>

fun rowsOfValue :: "sheetValue \<Rightarrow> row list" where
  "rowsOfValue (RowArray rs) = rs"
| "rowsOfValue NotAnArray = []"

definition clientRows :: "jsstring list \<Rightarrow> clientSheets \<Rightarrow> row list" where
  "clientRows words sheetsData = concat (map rowsOfValue (selectSheets words sheetsData))"

definition amountsOf :: "jsstring list \<Rightarrow> row list \<Rightarrow> jsnum list" where
  "amountsOf names rs = map (\<lambda>r. extractNumericValue r names) rs"

definition positiveAmounts :: "jsstring list \<Rightarrow> row list \<Rightarrow> jsnum list" where
  "positiveAmounts names rs = filter (\<lambda>a. jsgt a (Fin 0)) (amountsOf names rs)"

section \<open>Evaluation rules\<close>

lemmas char_defs = str_def rupee_def euro_def pound_def yen_def dollar_def comma_def

lemmas parse_defs =
  parseFloat_def splitSign_def isWhiteSpace_def isDigit_def digitsVal_def exponentPart_def
  scale10_def

lemmas clean_defs = stripChars_def strippedChars_def orZero_def numTruthy_def

section \<open>cleanNumericValue\<close>

lemma orZero_not_NaN: "orZero x \<noteq> NaN"
  by (simp add: orZero_def numTruthy_def)

lemma orZero_eq: "orZero x = (if x = NaN then Fin 0 else x)"
  by (auto simp: orZero_def numTruthy_def)

lemma cleanNumericValue_not_NaN: "cleanNumericValue v \<noteq> NaN"
  by (cases v) (simp_all add: orZero_not_NaN)

text \<open>
  Claim C4, as the code has it. For every input, \<open>cleanNumericValue\<close> returns a number
  and never NaN: 0 for \<open>null\<close> and \<open>undefined\<close>; for a string, the result of \<open>parseFloat\<close>
  on the string without its commas, its letters \<open>k\<close> and \<open>g\<close> (each removed wherever it
  stands, not only in a suffix \<open>kg\<close>), its rupee signs and its dollar signs, and 0 when
  that parse fails. Euro, pound and yen signs are not removed. The rupee amount
  \<open>1,25,000\<close> gives 125000 and the empty string gives 0.
\<close>

theorem cleanNumericValue_strips_and_parses:
  "cleanNumericValue VNull = Fin 0
   \<and> cleanNumericValue VUndefined = Fin 0
   \<and> cleanNumericValue (VStr s) =
       (let p = parseFloat (filter (\<lambda>c. c \<notin> {comma, of_char CHR ''k'', of_char CHR ''g'', rupee, dollar}) s)
        in if p = NaN then Fin 0 else p)
   \<and> cleanNumericValue v \<noteq> NaN
   \<and> cleanNumericValue (VStr (rupee # str ''1,25,000'')) = Fin 125000
   \<and> cleanNumericValue (VStr (str ''12.5kg'')) = Fin (25 / 2)
   \<and> cleanNumericValue (VStr (euro # str ''100'')) = Fin 0
   \<and> cleanNumericValue (VStr []) = Fin 0"
proof -
  have general: "cleanNumericValue (VStr s) =
     (let p = parseFloat (filter (\<lambda>c. c \<notin> {comma, of_char CHR ''k'', of_char CHR ''g'', rupee, dollar}) s)
      in if p = NaN then Fin 0 else p)"
    by (simp add: orZero_eq stripChars_def strippedChars_def Let_def)
  have rupees: "cleanNumericValue (VStr (rupee # str ''1,25,000'')) = Fin 125000"
    by (simp add: char_defs parse_defs clean_defs)
  have kilos: "cleanNumericValue (VStr (str ''12.5kg'')) = Fin (25 / 2)"
    by (simp add: char_defs parse_defs clean_defs)
  have euros: "cleanNumericValue (VStr (euro # str ''100'')) = Fin 0"
    by (simp add: char_defs parse_defs clean_defs)
  have empty: "cleanNumericValue (VStr []) = Fin 0"
    by (simp add: char_defs parse_defs clean_defs)
  from general rupees kilos euros empty cleanNumericValue_not_NaN [of v]
  show ?thesis by simp
qed

text \<open>
  Claim C4 as stated fails on the code: the specification's normaliser removes the euro
  sign and reads \<open>100\<close>, the code leaves it and returns 0; and the code removes a lone
  \<open>k\<close> inside a number, which the specification's normaliser does not.
\<close>

theorem cleanNumericValue_euro_counterexample:
  "cleanNumericValue (VStr (euro # str ''100'')) = Fin 0
   \<and> normalizeAmount_spec (VStr (euro # str ''100'')) = Fin 100
   \<and> cleanNumericValue (VStr (str ''1k5'')) = Fin 15
   \<and> normalizeAmount_spec (VStr (str ''1k5'')) = Fin 1"
  by (simp add: char_defs parse_defs clean_defs specStrippedChars_def stripUnitSuffix_def
        suffix_to_prefix)

section \<open>detectSheetType\<close>

lemma str_includes_sublist: "str_includes s pat \<longleftrightarrow> sublist pat s"
  by (induction s) (simp_all add: sublist_Cons_right)

lemma sublist_nonempty: "sublist p h \<Longrightarrow> p \<noteq> [] \<Longrightarrow> h \<noteq> []"
  by auto

lemma header_match_iff:
  "header \<noteq> [] \<Longrightarrow>
   list_ex (\<lambda>h. h \<noteq> [] \<and> str_includes h header) hs \<longleftrightarrow> (\<exists>h \<in> set hs. sublist header h)"
  unfolding list_ex_iff str_includes_sublist using sublist_nonempty by blast

text \<open>
  The loop over any table whose header substrings are non-empty returns the type of the
  first entry that matches. The guard \<open>h &&\<close> of the source changes nothing then: an empty
  header contains no non-empty substring.
\<close>

lemma detectSheetTypeLoop_find:
  "\<forall>e \<in> set T. [] \<notin> set (configHeaders (snd e)) \<Longrightarrow>
   detectSheetTypeLoop T U hs =
     (case find (\<lambda>e. entryMatches (snd e) U hs) T of None \<Rightarrow> ''general'' | Some e \<Rightarrow> fst e)"
proof (induction T)
  case Nil
  show ?case by simp
next
  case (Cons e T)
  obtain type config where e: "e = (type, config)" by (cases e)
  from Cons.prems e have nonempty: "\<forall>header \<in> set (configHeaders config). header \<noteq> []"
    by auto
  have "list_ex (\<lambda>header. list_ex (\<lambda>h. h \<noteq> [] \<and> str_includes h header) hs) (configHeaders config)
        \<longleftrightarrow> (\<exists>header \<in> set (configHeaders config). \<exists>h \<in> set hs. sublist header h)"
    using nonempty header_match_iff by (simp add: list_ex_iff)
  moreover have "list_ex (\<lambda>keyword. str_includes U keyword) (configKeywords config)
        \<longleftrightarrow> (\<exists>keyword \<in> set (configKeywords config). sublist keyword U)"
    by (simp add: list_ex_iff str_includes_sublist)
  ultimately have step: "(list_ex (\<lambda>keyword. str_includes U keyword) (configKeywords config) \<or>
      list_ex (\<lambda>header. list_ex (\<lambda>h. h \<noteq> [] \<and> str_includes h header) hs) (configHeaders config))
      \<longleftrightarrow> entryMatches config U hs"
    by (simp add: entryMatches_def)
  from Cons.prems have "\<forall>e \<in> set T. [] \<notin> set (configHeaders (snd e))" by simp
  then have IH: "detectSheetTypeLoop T U hs =
     (case find (\<lambda>e. entryMatches (snd e) U hs) T of None \<Rightarrow> ''general'' | Some e \<Rightarrow> fst e)"
    by (rule Cons.IH)
  show ?case using step IH by (simp add: e Let_def)
qed

lemma config_headers_nonempty: "\<forall>e \<in> set SHEET_TYPE_CONFIG. [] \<notin> set (configHeaders (snd e))"
  by (simp add: SHEET_TYPE_CONFIG_def str_def)

lemma config_order:
  "map fst SHEET_TYPE_CONFIG =
     [''production-batches'', ''harvest-tracking'', ''sourcing-procurement'',
      ''post-harvest-logistics'', ''financial-revenue'', ''financial-expense'',
      ''production-settings'']"
  by (simp add: SHEET_TYPE_CONFIG_def)

lemma batch_revenue_sheet:
  "detectSheetType (str ''Batch_Revenue'') [str ''BatchID'', str ''Revenue''] = ''production-batches''"
  by (simp add: detectSheetType_def SHEET_TYPE_CONFIG_def toUpperCase_def upperChar_def str_def)

lemma revenue_and_general_sheets:
  "detectSheetType (str ''Ledger'') [str ''Item'', str ''Revenue''] = ''financial-revenue''
   \<and> detectSheetType (str ''Inventory'') [str ''Item'', str ''Stock''] = ''general''"
  by (simp add: detectSheetType_def SHEET_TYPE_CONFIG_def toUpperCase_def upperChar_def str_def)

text \<open>
  Claim C3. \<open>detectSheetType\<close> returns the type of the first entry of the table, in the
  order of its declaration, whose keywords match the upper-cased sheet name or whose
  header substrings match some header, and \<open>general\<close> when no entry matches. The table
  lists production-batches, harvest-tracking, sourcing-procurement,
  post-harvest-logistics, financial-revenue, financial-expense and production-settings
  in this order, and the sheet \<open>Batch_Revenue\<close> with the headers \<open>BatchID\<close> and \<open>Revenue\<close>
  is classified production-batches. A sheet \<open>Ledger\<close> with a header \<open>Revenue\<close> is
  classified financial-revenue, and a sheet that matches no entry is \<open>general\<close>.
\<close>

theorem detectSheetType_first_match:
  "detectSheetType name hs =
     (case find (\<lambda>e. entryMatches (snd e) (toUpperCase name) hs) SHEET_TYPE_CONFIG of
        None \<Rightarrow> ''general'' | Some e \<Rightarrow> fst e)
   \<and> map fst SHEET_TYPE_CONFIG =
       [''production-batches'', ''harvest-tracking'', ''sourcing-procurement'',
        ''post-harvest-logistics'', ''financial-revenue'', ''financial-expense'',
        ''production-settings'']
   \<and> detectSheetType (str ''Batch_Revenue'') [str ''BatchID'', str ''Revenue'']
       = ''production-batches''
   \<and> detectSheetType (str ''Ledger'') [str ''Item'', str ''Revenue''] = ''financial-revenue''
   \<and> detectSheetType (str ''Inventory'') [str ''Item'', str ''Stock''] = ''general''"
  using detectSheetTypeLoop_find [OF config_headers_nonempty] config_order batch_revenue_sheet
    revenue_and_general_sheets
  by (simp add: detectSheetType_def)

section \<open>The financial example\<close>

lemmas fin_defs =
  detectRevenueData_def detectExpenseData_def detectFinancialData_def scanFinancialData_def
  sheetStep_def relevantColumns_def isRelevantColumn_def searchFields_def rowStep_def
  cellStep_def addCategories_def categoryFields_def setAdd_def getField_def toLowerCase_def
  lowerChar_def finInit_def

lemma sales_example_one_header:
  "detectRevenueData
     [(name, \<lparr> headers = [str ''RevenueAmount''], rows = salesRows (str ''Category'') \<rparr>)]
   = \<lparr> total = Fin 3000, sources = 1, categories = 0, records = 2, fdTrend = Neutral \<rparr>"
  by (simp add: fin_defs salesRows_def char_defs parse_defs clean_defs)

lemma sales_example_two_headers:
  "detectRevenueData
     [(name, \<lparr> headers = [str ''Category'', str ''RevenueAmount''],
               rows = salesRows (str ''Category'') \<rparr>)]
   = \<lparr> total = Fin 3000, sources = 1, categories = 0, records = 2, fdTrend = Neutral \<rparr>"
  by (simp add: fin_defs salesRows_def char_defs parse_defs clean_defs)

lemma sales_example_type_field:
  "fsCategories (scanFinancialData
     [(name, \<lparr> headers = [str ''Type'', str ''RevenueAmount''], rows = salesRows (str ''Type'') \<rparr>)]
     True) = [VStr (str ''Sales'')]"
  by (simp add: fin_defs salesRows_def char_defs parse_defs clean_defs)

text \<open>
  Claim C1, as the code has it. For a snapshot of one sheet, of any name, whose header
  row is \<open>RevenueAmount\<close> (alone or after \<open>Category\<close>) and whose two rows carry
  \<open>Category: Sales\<close> and the rupee amounts 1,000 and 2,000, the revenue detection
  reports total 3000, one source, two records and no category: \<open>Category\<close> is not one of
  the descriptive fields \<open>Crop\<close>, \<open>Variety\<close>, \<open>Type\<close>, \<open>Department\<close>, \<open>Vendor\<close>,
  \<open>Description\<close>. When the rows carry \<open>Type: Sales\<close> instead, the category set is
  \<open>Sales\<close> alone and the count is 1.
\<close>

theorem revenue_example_totals:
  "detectRevenueData
     [(name, \<lparr> headers = [str ''RevenueAmount''], rows = salesRows (str ''Category'') \<rparr>)]
     = \<lparr> total = Fin 3000, sources = 1, categories = 0, records = 2, fdTrend = Neutral \<rparr>
   \<and> detectRevenueData
     [(name, \<lparr> headers = [str ''Category'', str ''RevenueAmount''],
               rows = salesRows (str ''Category'') \<rparr>)]
     = \<lparr> total = Fin 3000, sources = 1, categories = 0, records = 2, fdTrend = Neutral \<rparr>
   \<and> fsCategories (scanFinancialData
         [(name, \<lparr> headers = [str ''Type'', str ''RevenueAmount''],
                   rows = salesRows (str ''Type'') \<rparr>)] True)
     = [VStr (str ''Sales'')]
   \<and> categories (detectRevenueData
         [(name, \<lparr> headers = [str ''Type'', str ''RevenueAmount''],
                   rows = salesRows (str ''Type'') \<rparr>)])
     = 1"
proof -
  have "categories (detectRevenueData
         [(name, \<lparr> headers = [str ''Type'', str ''RevenueAmount''],
                   rows = salesRows (str ''Type'') \<rparr>)])
     = length [VStr (str ''Sales'')]"
    unfolding sales_example_type_field [of name, symmetric]
    by (simp add: detectRevenueData_def detectFinancialData_def Let_def)
  then show ?thesis
    using sales_example_one_header [of name] sales_example_two_headers [of name]
      sales_example_type_field [of name]
    by simp
qed

text \<open>
  Claim C1 as stated fails on the code: on the example the count of categories is 0,
  not 1, and the category set is empty.
\<close>

theorem revenue_example_categories_counterexample:
  "categories (detectRevenueData
     [(str ''Revenue'', \<lparr> headers = [str ''Category'', str ''RevenueAmount''],
                          rows = salesRows (str ''Category'') \<rparr>)]) = 0
   \<and> fsCategories (scanFinancialData
     [(str ''Revenue'', \<lparr> headers = [str ''Category'', str ''RevenueAmount''],
                          rows = salesRows (str ''Category'') \<rparr>)] True) = []"
  by (simp add: fin_defs salesRows_def char_defs parse_defs clean_defs)

section \<open>The summary cards\<close>

lemma totalDeliveries_rows:
  "totalDeliveries (calculateHarvestMetrics sheetsData) = length (rowsOf sheetsData (str ''Post_Harvest''))"
  by (simp add: calculateHarvestMetrics_def Let_def)

text \<open>
  Claim C8. The titles of the summary cards are, in this order, Total Revenue, Total
  Expenses, Net Profit, Active Batches, Total Harvested, Quality Score, then On-Time
  Delivery exactly when at least one delivery is recorded, then Total Records. The
  deliveries recorded are the rows of the sheet \<open>Post_Harvest\<close>.
\<close>

theorem summary_cards_order:
  "map title (generateAgriculturalSummaryCards dateParse now sheetsData) =
     [''Total Revenue'', ''Total Expenses'', ''Net Profit'', ''Active Batches'',
      ''Total Harvested'', ''Quality Score'']
     @ (if totalDeliveries (calculateHarvestMetrics sheetsData) \<ge> 1
        then [''On-Time Delivery''] else [])
     @ [''Total Records'']
   \<and> totalDeliveries (calculateHarvestMetrics sheetsData)
       = length (rowsOf sheetsData (str ''Post_Harvest''))"
proof (intro conjI)
  show "map title (generateAgriculturalSummaryCards dateParse now sheetsData) =
     [''Total Revenue'', ''Total Expenses'', ''Net Profit'', ''Active Batches'',
      ''Total Harvested'', ''Quality Score'']
     @ (if totalDeliveries (calculateHarvestMetrics sheetsData) \<ge> 1
        then [''On-Time Delivery''] else [])
     @ [''Total Records'']"
    by (simp add: generateAgriculturalSummaryCards_def Let_def)
  show "totalDeliveries (calculateHarvestMetrics sheetsData)
       = length (rowsOf sheetsData (str ''Post_Harvest''))"
    by (rule totalDeliveries_rows)
qed

section \<open>Revenue and expense detection\<close>

lemma includes_single: "str_includes h [c] \<longleftrightarrow> c \<in> set h"
  by (induction h) auto

lemma sublist_single: "sublist [c] (h :: jsstring) \<longleftrightarrow> c \<in> set h"
  using includes_single [of h c] by (simp add: str_includes_sublist)

lemma concat_map_Nil: "concat (map (\<lambda>r. []) rs) = []"
  by (induction rs) simp_all

lemma keyword_nonempty: "field \<in> set (searchFields b) \<Longrightarrow> field \<noteq> []"
  by (auto simp: searchFields_def str_def split: if_splits)

lemma hasKeyword_nonempty: "hasKeyword b header \<Longrightarrow> header \<noteq> []"
  unfolding hasKeyword_def toLowerCase_def
  using keyword_nonempty sublist_nonempty by fastforce

lemma revenue_keyword: "str ''revenue'' \<in> set (searchFields True)"
  by (simp add: searchFields_def)

lemma revenue_relevant_iff: "isRelevantColumn True header \<longleftrightarrow> hasKeyword True header"
proof
  assume "isRelevantColumn True header"
  then show "hasKeyword True header"
    using revenue_keyword
    by (auto simp: isRelevantColumn_def hasKeyword_def list_ex_iff str_includes_sublist)
next
  assume h: "hasKeyword True header"
  then have "header \<noteq> []" by (rule hasKeyword_nonempty)
  with h show "isRelevantColumn True header"
    by (auto simp: isRelevantColumn_def hasKeyword_def list_ex_iff str_includes_sublist)
qed

lemma expense_relevant_iff:
  "isRelevantColumn False header \<longleftrightarrow>
     hasKeyword False header
     \<or> (rupee \<in> set header \<and> \<not> sublist (str ''revenue'') (toLowerCase header))"
proof
  assume "isRelevantColumn False header"
  then show "hasKeyword False header
     \<or> (rupee \<in> set header \<and> \<not> sublist (str ''revenue'') (toLowerCase header))"
    by (auto simp: isRelevantColumn_def hasKeyword_def list_ex_iff str_includes_sublist
          sublist_single)
next
  assume h: "hasKeyword False header
     \<or> (rupee \<in> set header \<and> \<not> sublist (str ''revenue'') (toLowerCase header))"
  then have ne: "header \<noteq> []" using hasKeyword_nonempty by auto
  have ex: "str ''expense'' \<in> set (searchFields False)" by (simp add: searchFields_def)
  from h ne ex show "isRelevantColumn False header"
    by (auto simp: isRelevantColumn_def hasKeyword_def list_ex_iff str_includes_sublist
          sublist_single)
qed

lemma keyword_lists_disjoint: "set (searchFields True) \<inter> set (searchFields False) = {}"
  by (simp add: searchFields_def str_def)

text \<open>
  The three nested loops of the scan add up, sheet after sheet and row after row, the
  positive amounts of the relevant columns.
\<close>

lemma cells_fold:
  "fsTotal (foldl (cellStep r) st cols) =
     foldl jsadd (fsTotal st)
       (filter (\<lambda>v. jsgt v (Fin 0)) (map (\<lambda>col. cleanNumericValue (getField r col)) cols))
   \<and> fsRecords (foldl (cellStep r) st cols) =
     fsRecords st + length (filter (\<lambda>v. jsgt v (Fin 0)) (map (\<lambda>col. cleanNumericValue (getField r col)) cols))
   \<and> fsSources (foldl (cellStep r) st cols) = fsSources st"
  by (induction cols arbitrary: st) (simp_all add: cellStep_def Let_def)

lemma rows_fold:
  "fsTotal (foldl (rowStep cols) st rs) =
     foldl jsadd (fsTotal st)
       (concat (map (\<lambda>r. filter (\<lambda>v. jsgt v (Fin 0)) (map (\<lambda>col. cleanNumericValue (getField r col)) cols)) rs))
   \<and> fsRecords (foldl (rowStep cols) st rs) =
     fsRecords st + length (concat (map (\<lambda>r. filter (\<lambda>v. jsgt v (Fin 0)) (map (\<lambda>col. cleanNumericValue (getField r col)) cols)) rs))
   \<and> fsSources (foldl (rowStep cols) st rs) = fsSources st"
  by (induction rs arbitrary: st) (simp_all add: rowStep_def cells_fold)

lemma sheet_fold:
  "fsTotal (sheetStep b st e) =
     foldl jsadd (fsTotal st) (matchedCells b [e])
   \<and> fsRecords (sheetStep b st e) = fsRecords st + length (matchedCells b [e])"
  by (simp add: sheetStep_def matchedCells_def rows_fold Let_def concat_map_Nil)

lemma matchedCells_Cons: "matchedCells b (e # sd) = matchedCells b [e] @ matchedCells b sd"
  by (simp add: matchedCells_def)

lemma sheets_fold:
  "fsTotal (foldl (sheetStep b) st sd) = foldl jsadd (fsTotal st) (matchedCells b sd)
   \<and> fsRecords (foldl (sheetStep b) st sd) = fsRecords st + length (matchedCells b sd)"
proof (induction sd arbitrary: st)
  case Nil
  show ?case by (simp add: matchedCells_def)
next
  case (Cons e sd)
  show ?case
    using Cons.IH [of "sheetStep b st e"] sheet_fold [of b st e]
    by (simp add: matchedCells_Cons [of b e sd])
qed

lemma scan_total:
  "total (detectFinancialData sd b) = foldl jsadd (Fin 0) (matchedCells b sd)
   \<and> records (detectFinancialData sd b) = length (matchedCells b sd)"
  using sheets_fold [of b finInit sd]
  by (simp add: detectFinancialData_def scanFinancialData_def Let_def finInit_def)

text \<open>
  Claim C6, as the code has it. Each detection scans every sheet of the snapshot,
  whatever its classification: its total is the sum of the positive amounts in the
  relevant columns of all rows of all sheets. A column is relevant for revenue exactly
  when its lower-cased header contains \<open>revenue\<close>, \<open>income\<close> or \<open>sales\<close>; it is relevant
  for expenses exactly when its lower-cased header contains \<open>expense\<close>, \<open>cost\<close>,
  \<open>amount\<close> or \<open>outstanding\<close>, or the header contains a rupee sign and not \<open>revenue\<close>.
  The two keyword lists have no keyword in common, but a header can satisfy both
  conditions, and then the column is added to both totals: \<open>RevenueAmount\<close> is such a
  header.
\<close>

theorem financial_columns_by_keyword:
  "total (detectFinancialData sheetsData isRevenue)
     = foldl jsadd (Fin 0) (matchedCells isRevenue sheetsData)
   \<and> set (searchFields True) \<inter> set (searchFields False) = {}
   \<and> (isRelevantColumn True header \<longleftrightarrow> hasKeyword True header)
   \<and> (isRelevantColumn False header \<longleftrightarrow>
        hasKeyword False header
        \<or> (rupee \<in> set header \<and> \<not> sublist (str ''revenue'') (toLowerCase header)))
   \<and> isRelevantColumn True (str ''RevenueAmount'')
   \<and> isRelevantColumn False (str ''RevenueAmount'')"
proof -
  have both: "isRelevantColumn True (str ''RevenueAmount'')
      \<and> isRelevantColumn False (str ''RevenueAmount'')"
    by (simp add: isRelevantColumn_def searchFields_def toLowerCase_def lowerChar_def char_defs)
  from scan_total [of sheetsData isRevenue] keyword_lists_disjoint
    revenue_relevant_iff [of header] expense_relevant_iff [of header] both
  show ?thesis by blast
qed

text \<open>
  Claim C6 as stated fails on the code: the single column \<open>RevenueAmount\<close> of the sheet
  below is added to the revenue total and to the expense total.
\<close>

theorem revenue_amount_both_totals_counterexample:
  "total (detectRevenueData
     [(str ''Ledger'', \<lparr> headers = [str ''RevenueAmount''],
                         rows = [[(str ''RevenueAmount'', VStr (str ''100''))]] \<rparr>)]) = Fin 100
   \<and> total (detectExpenseData
     [(str ''Ledger'', \<lparr> headers = [str ''RevenueAmount''],
                         rows = [[(str ''RevenueAmount'', VStr (str ''100''))]] \<rparr>)]) = Fin 100
   \<and> relevantColumns True [str ''RevenueAmount''] = [str ''RevenueAmount'']
   \<and> relevantColumns False [str ''RevenueAmount''] = [str ''RevenueAmount'']"
  by (simp add: fin_defs char_defs parse_defs clean_defs)

section \<open>hasMinimalContent\<close>

lemma not_skipped_not_empty: "\<not> skipped v \<Longrightarrow> \<not> isEmptyValue v"
  by (simp add: skipped_def)

text \<open>
  The loop counts the meaningful fields and records whether one of them has an
  important name.
\<close>

lemma contentLoop_counts:
  "contentLoop r n b =
     (n + length (meaningfulFields r),
      b \<or> (\<exists>e \<in> set (meaningfulFields r). isImportantField (fst e)))"
proof (induction r arbitrary: n b)
  case Nil
  show ?case by (simp add: meaningfulFields_def)
next
  case (Cons e r)
  obtain key v where e: "e = (key, v)" by (cases e)
  show ?case
  proof (cases "skipped v")
    case True
    then show ?thesis using Cons.IH [of n b] by (simp add: e meaningfulFields_def)
  next
    case False
    then have "\<not> isEmptyValue v" by (rule not_skipped_not_empty)
    with False show ?thesis
      using Cons.IH [of "n + 1" "if isImportantField key then True else b"]
      by (auto simp: e meaningfulFields_def)
  qed
qed

lemma hasMinimalContent_iff:
  "hasMinimalContent r \<longleftrightarrow>
     length (meaningfulFields r) \<ge> 2
     \<and> (\<exists>e \<in> set (meaningfulFields r). isImportantField (fst e))"
  by (simp add: hasMinimalContent_def contentLoop_counts)

lemmas content_defs =
  hasMinimalContent_def skipped_def isImportantField_def importantFields_def junkTokens_def
  EMPTY_VALUES_def trim_def isWhiteSpace_def toLowerCase_def lowerChar_def str_def

lemma notes_comment_rejected:
  "\<not> hasMinimalContent
       [(str ''Notes'', VStr (str ''ok'')), (str ''Comment'', VStr (str ''fine''))]"
  by (simp add: content_defs)

lemma batch_notes_ok_accepted:
  "hasMinimalContent [(str ''BatchID'', VStr (str ''B1'')), (str ''Notes'', VStr (str ''ok''))]"
  by (simp add: content_defs)

lemma batch_notes_x_rejected:
  "\<not> hasMinimalContent
       [(str ''BatchID'', VStr (str ''B1'')), (str ''Notes'', VStr (str ''x''))]"
  by (simp add: content_defs)

lemma empty_batch_rejected:
  "\<not> hasMinimalContent
       [(str ''BatchID'', VStr []), (str ''Notes'', VStr (str ''ok'')),
        (str ''Comment'', VStr (str ''fine''))]"
  by (simp add: content_defs)

text \<open>
  Claim C2, as the code has it. \<open>hasMinimalContent\<close> is the conjunction of two
  conditions: the record has at least two meaningful fields, and at least one of its
  meaningful fields has an important name. It rejects the record with \<open>Notes: ok\<close> and
  \<open>Comment: fine\<close>, and accepts the record with \<open>BatchID: B1\<close> and \<open>Notes: ok\<close>. It
  rejects the record with \<open>BatchID: B1\<close> and \<open>Notes: x\<close>, whose second value is a single
  character and is not counted, and a record whose only important-named field is empty.
\<close>

theorem hasMinimalContent_conjunction:
  "(hasMinimalContent record \<longleftrightarrow>
      length (meaningfulFields record) \<ge> 2
      \<and> (\<exists>e \<in> set (meaningfulFields record). isImportantField (fst e)))
   \<and> \<not> hasMinimalContent
         [(str ''Notes'', VStr (str ''ok'')), (str ''Comment'', VStr (str ''fine''))]
   \<and> hasMinimalContent
         [(str ''BatchID'', VStr (str ''B1'')), (str ''Notes'', VStr (str ''ok''))]
   \<and> \<not> hasMinimalContent
         [(str ''BatchID'', VStr (str ''B1'')), (str ''Notes'', VStr (str ''x''))]
   \<and> \<not> hasMinimalContent
         [(str ''BatchID'', VStr []), (str ''Notes'', VStr (str ''ok'')),
          (str ''Comment'', VStr (str ''fine''))]"
  using hasMinimalContent_iff [of "record"] notes_comment_rejected batch_notes_ok_accepted
    batch_notes_x_rejected empty_batch_rejected
  by blast

text \<open>
  Claim C2 as stated fails on the code: the record with \<open>BatchID: B1\<close> and \<open>Notes: x\<close>
  has one meaningful field only and is rejected.
\<close>

theorem single_character_note_counterexample:
  "\<not> hasMinimalContent
       [(str ''BatchID'', VStr (str ''B1'')), (str ''Notes'', VStr (str ''x''))]
   \<and> length (meaningfulFields
         [(str ''BatchID'', VStr (str ''B1'')), (str ''Notes'', VStr (str ''x''))]) = 1"
  by (simp add: meaningfulFields_def content_defs)

section \<open>Rounding to binary64\<close>

text \<open>
  The rounding moves a magnitude of at least 1 by at most the fraction \<open>2^-53\<close> of
  itself, and leaves every whole number below \<open>2^53\<close> as it is. When the binary
  exponent of a number is known, its rounding is the nearest multiple of the spacing
  \<open>2^(e - 52)\<close>.
\<close>

lemma roundEven_close: "\<bar>of_int (roundEven y) - y\<bar> \<le> 1 / 2"
proof -
  define r where "r = y - of_int \<lfloor>y\<rfloor>"
  have r: "0 \<le> r" "r < 1" unfolding r_def by linarith+
  have down: "roundEven y = \<lfloor>y\<rfloor> \<Longrightarrow> \<bar>of_int (roundEven y) - y\<bar> = r"
    using r by (simp add: r_def)
  have up: "roundEven y = \<lfloor>y\<rfloor> + 1 \<Longrightarrow> \<bar>of_int (roundEven y) - y\<bar> = 1 - r"
    using r by (simp add: r_def)
  consider "r < 1 / 2" | "r > 1 / 2" | "r = 1 / 2" by linarith
  then show ?thesis
  proof cases
    case 1
    then have "roundEven y = \<lfloor>y\<rfloor>" by (simp add: roundEven_def r_def Let_def)
    from down [OF this] 1 show ?thesis by linarith
  next
    case 2
    then have "roundEven y = \<lfloor>y\<rfloor> + 1" by (simp add: roundEven_def r_def Let_def)
    from up [OF this] 2 show ?thesis by linarith
  next
    case 3
    then have "roundEven y = \<lfloor>y\<rfloor> \<or> roundEven y = \<lfloor>y\<rfloor> + 1"
      by (simp add: roundEven_def r_def Let_def)
    with down up 3 show ?thesis by fastforce
  qed
qed

lemma roundEven_int: "roundEven (of_int k) = k"
  by (simp add: roundEven_def)

lemma expUp_lower: "1 \<le> x \<Longrightarrow> 0 \<le> expUp n x \<and> 2 powi (expUp n x) \<le> x"
proof (induction n arbitrary: x)
  case 0
  then show ?case by simp
next
  case (Suc n)
  show ?case
  proof (cases "x \<ge> 2")
    case True
    then have "1 \<le> x / 2" by simp
    from Suc.IH [OF this] have ih: "0 \<le> expUp n (x / 2)" "2 powi (expUp n (x / 2)) \<le> x / 2"
      by auto
    have "(2::rat) powi (1 + expUp n (x / 2)) = 2 * 2 powi (expUp n (x / 2))"
      by (simp add: power_int_add)
    with ih True show ?thesis by simp
  next
    case False
    with Suc.prems show ?thesis by simp
  qed
qed

lemma toDouble_error:
  assumes "1 \<le> x" "x < 2 ^ 1000"
  shows "\<exists>y. toDouble x = Fin y \<and> \<bar>y - x\<bar> \<le> x / 2 ^ 53"
proof -
  define e where "e = binExp x"
  define q :: rat where "q = 2 powi (e - 52)"
  define m where "m = of_int (roundEven (x / q)) * q"
  have e: "0 \<le> e" "2 powi e \<le> x"
    using expUp_lower [OF assms(1), of 1100] assms(1) by (simp_all add: e_def binExp_def)
  have qpos: "0 < q" by (simp add: q_def)
  have q53: "q / 2 = 2 powi e / 2 ^ 53"
    by (simp add: q_def power_int_diff)
  have "m - x = q * (of_int (roundEven (x / q)) - x / q)"
    using qpos by (simp add: m_def field_simps)
  then have "\<bar>m - x\<bar> = q * \<bar>of_int (roundEven (x / q)) - x / q\<bar>"
    using qpos by (simp add: abs_mult)
  also have "\<dots> \<le> q * (1 / 2)"
    using roundEven_close [of "x / q"] qpos by (intro mult_left_mono) simp_all
  finally have close: "\<bar>m - x\<bar> \<le> q / 2" by simp
  have half: "q / 2 \<le> x / 2 ^ 53"
    unfolding q53 using e(2) by (simp add: divide_right_mono)
  from close half have err: "\<bar>m - x\<bar> \<le> x / 2 ^ 53" by linarith
  have "x / 2 ^ 53 \<le> x" using assms(1) by (simp add: field_simps)
  with err have "m \<le> 2 * x" by linarith
  also have "\<dots> < 2 * 2 ^ 1000" using assms(2) by simp
  also have "\<dots> \<le> (2::rat) ^ 1024" by simp
  finally have small: "\<not> m \<ge> 2 ^ 1024" by simp
  have "toDouble x = Fin m"
    using assms(1) small
    by (simp add: toDouble_def Let_def e_def [symmetric] q_def [symmetric] m_def [symmetric])
  with err show ?thesis by blast
qed

lemma toDouble_int:
  assumes "1 \<le> n" "n < 2 ^ 53"
  shows "toDouble (of_int n) = Fin (of_int n)"
proof -
  define x :: rat where "x = of_int n"
  define e where "e = binExp x"
  define q :: rat where "q = 2 powi (e - 52)"
  have x1: "1 \<le> x" using assms(1) by (simp add: x_def)
  have "(of_int n :: rat) < of_int (2 ^ 53)" using assms(2) by (simp only: of_int_less_iff)
  then have xlt: "x < 2 ^ 53" by (simp add: x_def)
  have e: "0 \<le> e" "2 powi e \<le> x"
    using expUp_lower [OF x1, of 1100] x1 by (simp_all add: e_def binExp_def)
  have "e < 53"
  proof (rule ccontr)
    assume "\<not> e < 53"
    then have "53 \<le> e" by simp
    then have "(2::rat) powi 53 \<le> 2 powi e" by (intro power_int_increasing) simp_all
    with e(2) xlt show False by simp
  qed
  then have "e - 52 = - int (nat (52 - e))" by simp
  then obtain k :: nat where k: "e - 52 = - int k" by blast
  have q: "q = 1 / 2 ^ k" by (simp add: q_def k power_int_minus field_simps)
  have "x / q = of_int (n * 2 ^ k)" by (simp add: q x_def)
  then have "roundEven (x / q) = n * 2 ^ k" by (simp only: roundEven_int)
  then have m: "of_int (roundEven (x / q)) * q = x" by (simp add: q x_def)
  have "(2::rat) ^ 53 \<le> 2 ^ 1024" by (intro power_increasing) simp_all
  with xlt have "\<not> x \<ge> 2 ^ 1024" by simp
  then show ?thesis
    using x1 m
    by (simp add: toDouble_def Let_def x_def [symmetric] e_def [symmetric] q_def [symmetric])
qed

lemma toDouble_int_numeral:
  "1 \<le> (numeral k :: int) \<Longrightarrow> (numeral k :: int) < 2 ^ 53 \<Longrightarrow>
   toDouble (numeral k) = Fin (numeral k)"
  using toDouble_int [of "numeral k"] by simp

lemma expUp_unique:
  "2 powi e \<le> x \<Longrightarrow> x < 2 powi (e + 1) \<Longrightarrow> 0 \<le> e \<Longrightarrow> e \<le> int n \<Longrightarrow> expUp n x = e"
proof (induction n arbitrary: x e)
  case 0
  then show ?case by simp
next
  case (Suc n)
  show ?case
  proof (cases "e = 0")
    case True
    with Suc.prems show ?thesis by simp
  next
    case False
    with Suc.prems have epos: "0 \<le> e - 1" "e - 1 \<le> int n" by simp_all
    have p: "(2::rat) powi e = 2 * 2 powi (e - 1)"
      using power_int_add [of "2::rat" 1 "e - 1"] by simp
    have p': "(2::rat) powi (e + 1) = 2 * 2 powi (e - 1 + 1)"
      using power_int_add [of "2::rat" 1 "e"] by (simp add: add.commute)
    have "(1::rat) \<le> 2 powi (e - 1)" using epos(1) by (simp add: one_le_power_int)
    with Suc.prems(1) p have x2: "2 \<le> x" by simp
    have "2 powi (e - 1) \<le> x / 2" using Suc.prems(1) p by simp
    moreover have "x / 2 < 2 powi (e - 1 + 1)" using Suc.prems(2) p' by simp
    ultimately have "expUp n (x / 2) = e - 1" using epos by (rule Suc.IH)
    with x2 show ?thesis by simp
  qed
qed

lemma toDouble_at:
  assumes "2 powi e \<le> x" "x < 2 powi (e + 1)" "0 \<le> e" "e \<le> 1000"
  shows "toDouble x =
           Fin (of_int (roundEven (x / 2 powi (e - 52))) * 2 powi (e - 52))"
proof -
  have "(1::rat) \<le> 2 powi e" using assms(3) by (simp add: one_le_power_int)
  with assms(1) have x1: "1 \<le> x" by simp
  have e: "binExp x = e"
    using expUp_unique [OF assms(1,2,3), of 1100] assms(4) x1 by (simp add: binExp_def)
  have "(2::rat) powi (e + 1) \<le> 2 powi 1001"
    using assms(4) by (intro power_int_increasing) simp_all
  with assms(2) have "x < 2 ^ 1000 * 2" by simp
  then have small: "x < 2 ^ 1001" by simp
  define q :: rat where "q = 2 powi (e - 52)"
  have qpos: "0 < q" by (simp add: q_def)
  have "\<bar>of_int (roundEven (x / q)) - x / q\<bar> \<le> 1 / 2" by (rule roundEven_close)
  then have "of_int (roundEven (x / q)) \<le> x / q + 1 / 2" by linarith
  then have "of_int (roundEven (x / q)) * q \<le> (x / q + 1 / 2) * q"
    using qpos by (intro mult_right_mono) simp_all
  also have "\<dots> = x + q / 2" using qpos by (simp add: field_simps)
  also have "q / 2 \<le> x"
  proof -
    have "q / 2 = 2 powi e / 2 ^ 53" by (simp add: q_def power_int_diff)
    also have "\<dots> \<le> 2 powi e" by (simp add: field_simps)
    finally show ?thesis using assms(1) by simp
  qed
  finally have "of_int (roundEven (x / q)) * q \<le> 2 * x" by simp
  also have "\<dots> < 2 * 2 ^ 1001" using small by simp
  also have "\<dots> \<le> (2::rat) ^ 1024" by simp
  finally have "\<not> of_int (roundEven (x / q)) * q \<ge> 2 ^ 1024" by simp
  then show ?thesis
    using x1 by (simp add: toDouble_def Let_def e q_def [symmetric])
qed

lemma floor_rat_numeral: "\<lfloor>numeral a / numeral b :: rat\<rfloor> = numeral a div numeral b"
  by (metis floor_divide_of_int_eq of_int_numeral)

text \<open>
  The rounding is monotone on the positive numbers and leaves its own results as they
  are. Hence a binary64 number \<open>t >= 0\<close> is never above the rounded sum of \<open>t\<close> and an
  amount \<open>>= 0\<close>, and a running sum of such amounts stays a binary64 number \<open>>= 0\<close>
  (or \<open>Infinity\<close>).
\<close>

lemma toDouble_mag:
  "0 < x \<Longrightarrow> toDouble x = (if mag x \<ge> 2 ^ 1024 then PInf else Fin (mag x))"
  by (simp add: toDouble_def mag_def Let_def)

lemma roundEven_cases: "roundEven y = \<lfloor>y\<rfloor> \<or> roundEven y = \<lfloor>y\<rfloor> + 1"
  by (simp add: roundEven_def Let_def)

lemma roundEven_mono:
  assumes "x \<le> y"
  shows "roundEven x \<le> roundEven y"
proof (cases "\<lfloor>x\<rfloor> = \<lfloor>y\<rfloor>")
  case True
  have "x - of_int \<lfloor>x\<rfloor> \<le> y - of_int \<lfloor>y\<rfloor>" using assms True by simp
  then show ?thesis using True by (auto simp: roundEven_def Let_def)
next
  case False
  have "\<lfloor>x\<rfloor> \<le> \<lfloor>y\<rfloor>" using assms by (rule floor_mono)
  with False have "\<lfloor>x\<rfloor> + 1 \<le> \<lfloor>y\<rfloor>" by simp
  with roundEven_cases [of x] roundEven_cases [of y] show ?thesis by linarith
qed

lemma expUp_spec:
  "1 \<le> x \<Longrightarrow> 0 \<le> expUp n x \<and> expUp n x \<le> int n \<and> 2 powi (expUp n x) \<le> x
     \<and> (expUp n x < int n \<longrightarrow> x < 2 powi (expUp n x + 1))"
proof (induction n arbitrary: x)
  case 0
  then show ?case by simp
next
  case (Suc n)
  show ?case
  proof (cases "x \<ge> 2")
    case True
    then have "1 \<le> x / 2" by simp
    note ih = Suc.IH [OF this]
    have p: "(2::rat) powi (1 + expUp n (x / 2)) = 2 * 2 powi (expUp n (x / 2))"
      by (simp add: power_int_add)
    have p': "(2::rat) powi (1 + expUp n (x / 2) + 1) = 2 * 2 powi (expUp n (x / 2) + 1)"
      using power_int_add [of "2::rat" 1 "expUp n (x / 2) + 1"] by (simp add: add.assoc)
    from ih True p p' show ?thesis by auto
  next
    case False
    with Suc.prems show ?thesis by simp
  qed
qed

lemma expDown_spec:
  "0 < x \<Longrightarrow> x < 2 \<Longrightarrow>
     - int n \<le> expDown n x \<and> expDown n x \<le> 0 \<and> x < 2 powi (expDown n x + 1)
     \<and> (- int n < expDown n x \<longrightarrow> 2 powi (expDown n x) \<le> x)"
proof (induction n arbitrary: x)
  case 0
  then show ?case by simp
next
  case (Suc n)
  show ?case
  proof (cases "x < 1")
    case True
    with Suc.prems have "0 < 2 * x" "2 * x < 2" by simp_all
    note ih = Suc.IH [OF this]
    define r where "r = expDown n (2 * x)"
    have p: "(2::rat) powi (r + 1) = 2 * 2 powi (r - 1 + 1)"
      using power_int_add [of "2::rat" 1 "r"] by (simp add: add.commute)
    have p': "(2::rat) powi r = 2 * 2 powi (r - 1)"
      using power_int_add [of "2::rat" 1 "r - 1"] by simp
    have e: "expDown (Suc n) x = r - 1" using True by (simp add: r_def)
    from ih p p' show ?thesis unfolding e r_def [symmetric] by auto
  next
    case False
    with Suc.prems show ?thesis by simp
  qed
qed

lemma binExp_spec:
  assumes "0 < a"
  shows "- 1022 \<le> binExp a \<and> binExp a \<le> 1100
         \<and> (binExp a < 1100 \<longrightarrow> a < 2 powi (binExp a + 1))
         \<and> (- 1022 < binExp a \<longrightarrow> 2 powi (binExp a) \<le> a)"
proof (cases "1 \<le> a")
  case True
  with expUp_spec [OF True, of 1100] show ?thesis by (simp add: binExp_def)
next
  case False
  then have "a < 2" by simp
  with expDown_spec [OF assms this, of 1022] False show ?thesis by (simp add: binExp_def)
qed

lemma binExp_unique:
  assumes "0 < m" "- 1022 \<le> e" "e < 1100" "m < 2 powi (e + 1)" "2 powi e \<le> m \<or> e = - 1022"
  shows "binExp m = e"
proof -
  note s = binExp_spec [OF assms(1)]
  have "\<not> e < binExp m"
  proof
    assume lt: "e < binExp m"
    with assms(2) s have "2 powi (binExp m) \<le> m" by simp
    moreover have "(2::rat) powi (e + 1) \<le> 2 powi (binExp m)"
      using lt by (intro power_int_increasing) simp_all
    ultimately show False using assms(4) by simp
  qed
  moreover have "\<not> binExp m < e"
  proof
    assume lt: "binExp m < e"
    with assms(3) s have up: "m < 2 powi (binExp m + 1)" by simp
    have "(2::rat) powi (binExp m + 1) \<le> 2 powi e"
      using lt by (intro power_int_increasing) simp_all
    moreover from lt s assms(5) have "2 powi e \<le> m" by auto
    ultimately show False using up by simp
  qed
  ultimately show ?thesis by simp
qed

lemma binExp_mono:
  assumes "0 < a" "a \<le> b"
  shows "binExp a \<le> binExp b"
proof (rule ccontr)
  assume "\<not> binExp a \<le> binExp b"
  then have lt: "binExp b < binExp a" by simp
  have b: "0 < b" using assms by simp
  note sa = binExp_spec [OF assms(1)] and sb = binExp_spec [OF b]
  from lt sb have "2 powi (binExp a) \<le> a" using sa by simp
  moreover from lt sa sb have "b < 2 powi (binExp b + 1)" by simp
  moreover have "(2::rat) powi (binExp b + 1) \<le> 2 powi (binExp a)"
    using lt by (intro power_int_increasing) simp_all
  ultimately show False using assms(2) by simp
qed

lemma powi_52: "(2::rat) powi e = 2 ^ 52 * 2 powi (e - 52)"
proof -
  have "(2::rat) powi (52 + (e - 52)) = 2 powi 52 * 2 powi (e - 52)"
    by (rule power_int_add) simp
  then show ?thesis by simp
qed

lemma powi_53: "(2::rat) powi (e + 1) = 2 ^ 53 * 2 powi (e - 52)"
proof -
  have "(2::rat) powi (53 + (e - 52)) = 2 powi 53 * 2 powi (e - 52)"
    by (rule power_int_add) simp
  moreover have "53 + (e - 52) = e + 1" by simp
  ultimately show ?thesis by simp
qed

lemma powi_double: "(2::rat) powi (e + 1) = 2 * 2 powi e"
proof -
  have "(2::rat) powi (1 + e) = 2 powi 1 * 2 powi e"
    by (rule power_int_add) simp
  moreover have "1 + e = e + 1" by simp
  ultimately show ?thesis by simp
qed

lemma mag_nonneg: "0 < a \<Longrightarrow> 0 \<le> mag a"
proof -
  assume a: "0 < a"
  have "0 \<le> a / 2 powi (binExp a - 52)" using a by simp
  from roundEven_mono [OF this] have "0 \<le> roundEven (a / 2 powi (binExp a - 52))"
    using roundEven_int [of 0] by simp
  then show ?thesis by (simp add: mag_def)
qed

lemma mag_upper:
  assumes "0 < a" "binExp a < 1100"
  shows "roundEven (a / 2 powi (binExp a - 52)) \<le> 2 ^ 53" "mag a \<le> 2 powi (binExp a + 1)"
proof -
  define e where "e = binExp a"
  define q :: rat where "q = 2 powi (e - 52)"
  have qpos: "0 < q" by (simp add: q_def)
  have "a < 2 powi (e + 1)" using binExp_spec [OF assms(1)] assms(2) by (simp add: e_def)
  also have "(2::rat) powi (e + 1) = 2 ^ 53 * q"
    unfolding q_def by (rule powi_53)
  finally have "a / q \<le> 2 ^ 53" using qpos by (simp add: field_simps)
  then have "a / q \<le> of_int (2 ^ 53)" by simp
  from roundEven_mono [OF this] have k: "roundEven (a / q) \<le> 2 ^ 53"
    by (simp only: roundEven_int)
  then show "roundEven (a / 2 powi (binExp a - 52)) \<le> 2 ^ 53" by (simp add: q_def e_def)
  from k have "(of_int (roundEven (a / q)) :: rat) \<le> of_int (2 ^ 53)"
    by (simp only: of_int_le_iff)
  then have "of_int (roundEven (a / q)) * q \<le> 2 ^ 53 * q"
    using qpos by (intro mult_right_mono) simp_all
  also have "2 ^ 53 * q = (2::rat) powi (e + 1)"
    unfolding q_def by (rule powi_53 [symmetric])
  finally show "mag a \<le> 2 powi (binExp a + 1)" unfolding mag_def q_def e_def .
qed

lemma mag_lower:
  assumes "0 < a" "- 1022 < binExp a"
  shows "2 ^ 52 \<le> roundEven (a / 2 powi (binExp a - 52))" "2 powi (binExp a) \<le> mag a"
proof -
  define e where "e = binExp a"
  define q :: rat where "q = 2 powi (e - 52)"
  have qpos: "0 < q" by (simp add: q_def)
  have pe: "(2::rat) powi e = 2 ^ 52 * q"
    unfolding q_def by (rule powi_52)
  have "2 powi e \<le> a" using binExp_spec [OF assms(1)] assms(2) by (simp add: e_def)
  then have "2 ^ 52 \<le> a / q" using qpos by (simp add: pe field_simps)
  then have "of_int (2 ^ 52) \<le> a / q" by simp
  from roundEven_mono [OF this] have k: "2 ^ 52 \<le> roundEven (a / q)"
    by (simp only: roundEven_int)
  then show "2 ^ 52 \<le> roundEven (a / 2 powi (binExp a - 52))" by (simp add: q_def e_def)
  from k have "(of_int (2 ^ 52) :: rat) \<le> of_int (roundEven (a / q))"
    by (simp only: of_int_le_iff)
  then have "2 ^ 52 * q \<le> of_int (roundEven (a / q)) * q"
    using qpos by (intro mult_right_mono) simp_all
  then have "2 powi e \<le> of_int (roundEven (a / q)) * q" by (simp only: pe)
  then show "2 powi (binExp a) \<le> mag a" unfolding mag_def q_def e_def .
qed

lemma mag_mono:
  assumes "0 < a" "a \<le> b"
  shows "mag a \<le> mag b"
proof -
  have b: "0 < b" using assms by simp
  have le: "binExp a \<le> binExp b" using assms by (rule binExp_mono)
  show ?thesis
  proof (cases "binExp a = binExp b")
    case True
    define q :: rat where "q = 2 powi (binExp b - 52)"
    have qpos: "0 < q" by (simp add: q_def)
    have "a / q \<le> b / q" using assms(2) qpos by (simp add: divide_right_mono)
    from roundEven_mono [OF this]
    have "(of_int (roundEven (a / q)) :: rat) \<le> of_int (roundEven (b / q))"
      by (simp only: of_int_le_iff)
    then have "of_int (roundEven (a / q)) * q \<le> of_int (roundEven (b / q)) * q"
      using qpos by (intro mult_right_mono) simp_all
    then show ?thesis by (simp add: mag_def True q_def)
  next
    case False
    with le have lt: "binExp a < binExp b" by simp
    have "binExp a < 1100" using lt binExp_spec [OF b] by simp
    from mag_upper(2) [OF assms(1) this] have "mag a \<le> 2 powi (binExp a + 1)" .
    also have "(2::rat) powi (binExp a + 1) \<le> 2 powi (binExp b)"
      using lt by (intro power_int_increasing) simp_all
    also have "\<dots> \<le> mag b"
      using lt binExp_spec [OF assms(1)] by (intro mag_lower(2) [OF b]) simp
    finally show ?thesis .
  qed
qed

lemma mag_idem:
  assumes "0 < a" "mag a < 2 ^ 1024" "0 < mag a"
  shows "mag (mag a) = mag a"
proof -
  define e where "e = binExp a"
  define q :: rat where "q = 2 powi (e - 52)"
  define k where "k = roundEven (a / q)"
  define m where "m = mag a"
  have m: "m = of_int k * q" by (simp add: m_def mag_def k_def q_def e_def)
  have qpos: "0 < q" by (simp add: q_def)
  have mpos: "0 < m" using assms(3) by (simp add: m_def)
  have mlt: "m < 2 powi 1024" using assms(2) by (simp add: m_def)
  note s = binExp_spec [OF assms(1), folded e_def]
  have pe: "(2::rat) powi e = 2 ^ 52 * q"
    unfolding q_def by (rule powi_52)
  have pe1: "(2::rat) powi (e + 1) = 2 ^ 53 * q"
    unfolding q_def by (rule powi_53)
  have e1024: "e < 1024"
  proof (rule ccontr)
    assume "\<not> e < 1024"
    then have ge: "1024 \<le> e" by simp
    then have "- 1022 < binExp a" by (simp add: e_def)
    from mag_lower(2) [OF assms(1) this] have "2 powi e \<le> m" by (simp add: m_def e_def)
    moreover have "(2::rat) powi 1024 \<le> 2 powi e"
      using ge by (intro power_int_increasing) simp_all
    ultimately show False using mlt by simp
  qed
  then have "binExp a < 1100" by (simp add: e_def)
  from mag_upper(1) [OF assms(1) this] have kle: "k \<le> 2 ^ 53" by (simp add: k_def q_def e_def)
  have low: "2 powi e \<le> m \<or> e = - 1022"
  proof (cases "e = - 1022")
    case False
    with s have "- 1022 < binExp a" by (simp add: e_def)
    from mag_lower(2) [OF assms(1) this] show ?thesis by (simp add: m_def e_def)
  qed simp
  show ?thesis
  proof (cases "k < 2 ^ 53")
    case True
    then have "(of_int k :: rat) < of_int (2 ^ 53)" by (simp only: of_int_less_iff)
    then have "of_int k * q < 2 ^ 53 * q" using qpos by simp
    then have up: "m < 2 powi (e + 1)" by (simp add: m pe1)
    have "binExp m = e" using mpos _ _ up low by (rule binExp_unique) (use s e1024 in simp_all)
    then have "mag m = of_int (roundEven (m / q)) * q" by (simp add: mag_def q_def)
    also have "m / q = of_int k" using qpos by (simp add: m)
    also have "roundEven (of_int k) = k" by (rule roundEven_int)
    finally show ?thesis by (simp add: m m_def [symmetric])
  next
    case False
    with kle have k: "k = 2 ^ 53" by simp
    have meq: "m = 2 powi (e + 1)" by (simp add: m k pe1)
    have p2: "(2::rat) powi (e + 1 + 1) = 2 * 2 powi (e + 1)"
      by (rule powi_double)
    have up: "m < 2 powi (e + 1 + 1)" unfolding p2 meq by simp
    have "e + 1 < 1024"
    proof (rule ccontr)
      assume "\<not> e + 1 < 1024"
      then have "(2::rat) powi 1024 \<le> 2 powi (e + 1)"
        by (intro power_int_increasing) simp_all
      with mlt meq show False by simp
    qed
    then have "binExp m = e + 1"
      using s by (intro binExp_unique [OF mpos _ _ up]) (simp_all add: meq)
    then have "mag m = of_int (roundEven (m / (2 * q))) * (2 * q)"
      using power_int_add [of "2::rat" 1 "e - 52"] by (simp add: mag_def q_def add.commute)
    also have "m / (2 * q) = of_int (2 ^ 52)" using qpos by (simp add: m k)
    also have "roundEven (of_int (2 ^ 52)) = 2 ^ 52" by (rule roundEven_int)
    finally show ?thesis by (simp add: m k m_def [symmetric])
  qed
qed


lemma toDouble_nonneg:
  assumes "0 \<le> x"
  shows "nonNegDouble (toDouble x)"
proof (cases "x = 0")
  case True
  then show ?thesis by (simp add: nonNegDouble_def toDouble_def jsge_def)
next
  case False
  with assms have x: "0 < x" by simp
  show ?thesis
  proof (cases "mag x \<ge> 2 ^ 1024")
    case True
    with x show ?thesis by (simp add: toDouble_mag nonNegDouble_def jsge_def)
  next
    case big: False
    then have t: "toDouble x = Fin (mag x)" using x by (simp add: toDouble_mag)
    have nn: "0 \<le> mag x" using x by (rule mag_nonneg)
    show ?thesis
    proof (cases "mag x = 0")
      case True
      with t show ?thesis by (simp add: nonNegDouble_def toDouble_def jsge_def)
    next
      case False
      with nn have pos: "0 < mag x" by simp
      from big have "mag x < 2 ^ 1024" by simp
      from mag_idem [OF x this pos] big pos have "toDouble (mag x) = Fin (mag x)"
        by (simp add: toDouble_mag)
      with t pos show ?thesis by (simp add: nonNegDouble_def jsge_def)
    qed
  qed
qed

lemma toDouble_ge:
  assumes "toDouble t = Fin t" "0 \<le> t" "t \<le> x"
  shows "jsge (toDouble x) (Fin t)"
proof (cases "t = 0")
  case True
  with toDouble_nonneg [of x] assms show ?thesis by (simp add: nonNegDouble_def)
next
  case False
  with assms have t: "0 < t" and x: "0 < x" by simp_all
  from assms(1) t have mt: "mag t = t"
    by (simp add: toDouble_mag split: if_splits)
  have "mag t \<le> mag x" using t assms(3) by (rule mag_mono)
  with mt x show ?thesis by (auto simp: toDouble_mag jsge_def)
qed

lemma nonNegDouble_cases:
  "nonNegDouble T \<longleftrightarrow> T = PInf \<or> (\<exists>t. T = Fin t \<and> 0 \<le> t \<and> toDouble t = Fin t)"
  by (cases T) (auto simp: nonNegDouble_def jsge_def)

lemma fadd_nonNegDouble:
  assumes "nonNegDouble T" "finLe (Fin 0) A"
  shows "nonNegDouble (fadd T A) \<and> jsge (fadd T A) T"
proof -
  from assms(2) obtain q where A: "A = Fin q" "0 \<le> q" by (cases A) simp_all
  from assms(1) consider "T = PInf" | t where "T = Fin t" "0 \<le> t" "toDouble t = Fin t"
    unfolding nonNegDouble_cases by blast
  then show ?thesis
  proof cases
    case 1
    with A show ?thesis by (simp add: fadd_def nonNegDouble_def jsge_def)
  next
    case 2
    have "nonNegDouble (toDouble (t + q))" using 2(2) A(2) by (intro toDouble_nonneg) simp
    moreover have "jsge (toDouble (t + q)) (Fin t)"
      using 2(3,2) A(2) by (intro toDouble_ge) simp_all
    ultimately show ?thesis using 2(1) A(1) by (simp add: fadd_def)
  qed
qed

lemma fadd_fold_nonNegDouble:
  "nonNegDouble T \<Longrightarrow> \<forall>a \<in> set xs. finLe (Fin 0) a \<Longrightarrow> nonNegDouble (foldl fadd T xs)"
proof (induction xs arbitrary: T)
  case Nil
  then show ?case by simp
next
  case (Cons a xs)
  from Cons.prems have "nonNegDouble (fadd T a)" by (simp add: fadd_nonNegDouble)
  with Cons show ?case by simp
qed

lemma fadd_whole:
  assumes "0 \<le> k" "0 \<le> n" "k + n < 2 ^ 53"
  shows "fadd (Fin (of_int k)) (Fin (of_int n)) = Fin (of_int (k + n))"
proof (cases "k + n = 0")
  case True
  then show ?thesis by (simp add: fadd_def toDouble_def flip: of_int_add)
next
  case False
  with assms have "1 \<le> k + n" by simp
  from toDouble_int [OF this assms(3)] show ?thesis by (simp add: fadd_def)
qed

section \<open>Serial dates\<close>

lemma toDouble_close:
  assumes "1 \<le> x" "x < 10 ^ 20"
  obtains y where "toDouble x = Fin y" "\<bar>y - x\<bar> \<le> x / 9007199254740992"
proof -
  have "(10::rat) ^ 20 \<le> 2 ^ 1000" by simp
  with assms(2) have "x < 2 ^ 1000" by simp
  from toDouble_error [OF assms(1) this] that show ?thesis by auto
qed

lemma serialToDate_bound:
  assumes "30000 < s" "s < 2958466"
  shows "\<exists>t. serialToDate (Fin s) = Some t
             \<and> \<bar>of_int t - (s - 25569) * 86400000\<bar> < 9 / 8"
proof -
  define a where "a = s - 25569"
  have a: "4431 < a" "a < 2932897" using assms by (simp_all add: a_def)
  obtain d1 where d1: "toDouble a = Fin d1" "\<bar>d1 - a\<bar> \<le> a / 9007199254740992"
    using toDouble_close [of a] a by auto
  have d1b: "4430 < d1" "d1 < 2932898" using d1(2) a by linarith+
  obtain d2 where d2: "toDouble (d1 * 86400) = Fin d2"
      "\<bar>d2 - d1 * 86400\<bar> \<le> d1 * 86400 / 9007199254740992"
    using toDouble_close [of "d1 * 86400"] d1b by auto
  have d2b: "382752000 - 1 < d2" "d2 < 253402387200 + 1" using d2(2) d1b by linarith+
  obtain d3 where d3: "toDouble (d2 * 1000) = Fin d3"
      "\<bar>d3 - d2 * 1000\<bar> \<le> d2 * 1000 / 9007199254740992"
    using toDouble_close [of "d2 * 1000"] d2b by auto
  have d3b: "382751000000 < d3" "d3 < 253402387202000" using d3(2) d2b by linarith+
  obtain d4 where d4: "toDouble d3 = Fin d4" "\<bar>d4 - d3\<bar> \<le> d3 / 9007199254740992"
    using toDouble_close [of d3] d3b by auto
  have d4b: "0 \<le> d4" "d4 \<le> 8640000000000000" using d4(2) d3b by linarith+
  have err: "\<bar>d4 - a * 86400000\<bar> < 1 / 8"
    using d1(2) d2(2) d3(2) d4(2) a d1b d2b d3b by linarith
  have "serialToDate (Fin s) = timeClip (Fin d4)"
    using d1(1) d2(1) d3(1) d4(1)
    by (simp add: serialToDate_def fadd_def fmul_def fsub_def jssub_def a_def)
  also have "\<dots> = Some (truncZero d4)" using d4b by simp
  finally have t: "serialToDate (Fin s) = Some (truncZero d4)" .
  have "\<bar>of_int (truncZero d4) - d4\<bar> < 1"
    using d4b(1) unfolding truncZero_def by (simp add: abs_if) linarith
  with err have "\<bar>of_int (truncZero d4) - a * 86400000\<bar> < 9 / 8" by linarith
  with t show ?thesis by (auto simp: a_def)
qed

lemma truncZero_int: "truncZero (of_int n) = n"
  by (simp add: truncZero_def)

lemma timeClip_int:
  "0 \<le> m \<Longrightarrow> m \<le> 8640000000000000 \<Longrightarrow> timeClip (Fin (of_int m)) = Some m"
proof -
  assume m: "0 \<le> m" "m \<le> 8640000000000000"
  then have "(of_int m :: rat) \<le> of_int 8640000000000000" by (simp only: of_int_le_iff)
  with m(1) have "\<bar>of_int m :: rat\<bar> \<le> 8640000000000000" by simp
  then have "timeClip (Fin (of_int m)) = Some (truncZero (of_int m))" by simp
  then show ?thesis by (simp only: truncZero_int)
qed

lemma serialToDate_whole:
  assumes "30000 < n" "n < 2958466"
  shows "serialToDate (Fin (of_int n)) = Some ((n - 25569) * 86400000)"
proof -
  define m where "m = (n - 25569) * 86400 * 1000"
  have r1: "toDouble (of_int (n - 25569)) = Fin (of_int (n - 25569))"
    using assms by (intro toDouble_int) simp_all
  have r2: "toDouble (of_int ((n - 25569) * 86400)) = Fin (of_int ((n - 25569) * 86400))"
    using assms by (intro toDouble_int) simp_all
  have r3: "toDouble (of_int m) = Fin (of_int m)"
    using assms unfolding m_def by (intro toDouble_int) simp_all
  have "serialToDate (Fin (of_int n)) = timeClip (Fin (of_int m))"
    using r1 r2 r3
    by (simp add: serialToDate_def fadd_def fmul_def fsub_def jssub_def m_def)
  also have "\<dots> = Some m"
    using assms by (intro timeClip_int) (simp_all add: m_def)
  finally show ?thesis by (simp add: m_def)
qed

lemma whole_days_no_time:
  "getUTCHours (k * 86400000) = 0 \<and> getUTCMinutes (k * 86400000) = 0"
proof -
  have "k * 86400000 div 3600000 = k * 24" "k * 86400000 div 60000 = k * 1440" by simp_all
  then show ?thesis by (simp add: getUTCHours_def getUTCMinutes_def)
qed

lemma jsgt_bounds:
  "jsgt x (Fin a) \<Longrightarrow> jsgt (Fin b) x \<Longrightarrow> \<exists>s. x = Fin s \<and> a < s \<and> s < b"
  by (cases x) simp_all

lemma isExcelDate_serial:
  "isExcelDate v \<Longrightarrow> \<exists>s. serialOf v = Fin s \<and> 30000 < s \<and> s < 2958466"
  by (cases v) (auto simp: Let_def dest: jsgt_bounds)

lemma formatDateOf_serial:
  assumes "isExcelDate v" "serialOf v = Fin s"
  shows "formatDateOf dateParse v = serialToDate (Fin s)"
proof (cases v)
  case (VStr str)
  with assms isExcelDate_serial [of v] show ?thesis
    by (simp add: formatDateOf_def Let_def isNaN_def)
next
  case (VNum x)
  with assms show ?thesis by (simp add: formatDateOf_def)
qed (use assms in simp_all)

lemma parse_45901: "parseFloat64 (str ''45901'') = Fin 45901"
  by (simp add: parseFloat64_def char_defs parse_defs toDouble_int_numeral)

lemma serial_45901_num: "formatDate dateParse (VNum (Fin 45901)) = DateOnly 1756684800000"
  using serialToDate_whole [of 45901]
  by (simp add: formatDate_def formatDateOf_def getUTCHours_def getUTCMinutes_def Let_def)

lemma serial_45901_str: "formatDate dateParse (VStr (str ''45901'')) = DateOnly 1756684800000"
  using serialToDate_whole [of 45901]
  by (simp add: formatDate_def formatDateOf_def parse_45901 isNaN_def getUTCHours_def
        getUTCMinutes_def Let_def)

lemma serial_three_minutes:
  "formatDate dateParse (VNum (Fin (6308585689649425 / 137438953472)))
     = DateAndTime 1756684980000"
proof -
  have r1: "toDouble (6308585689649425 / 137438953472 - 25569)
              = Fin (2794409088323857 / 137438953472)"
    using toDouble_at [of 14 "6308585689649425 / 137438953472 - 25569"]
    by (simp add: roundEven_def Let_def floor_rat_numeral)
  have r2: "toDouble (2794409088323857 / 137438953472 * 86400) = Fin 1756684980"
    using toDouble_at [of 30 "2794409088323857 / 137438953472 * 86400"]
    by (simp add: roundEven_def Let_def floor_rat_numeral)
  have r3: "toDouble 1756684980000 = Fin 1756684980000"
    by (simp add: toDouble_int_numeral)
  have "serialToDate (Fin (6308585689649425 / 137438953472)) = Some 1756684980000"
    using r1 r2 r3
    by (simp add: serialToDate_def fadd_def fmul_def fsub_def jssub_def truncZero_def)
  then show ?thesis
    by (simp add: formatDate_def formatDateOf_def getUTCHours_def getUTCMinutes_def Let_def)
qed

text \<open>
  The rounding matters: for the serial below, three minutes after midnight as a
  binary64 number, the exact product is just below a whole minute, while the rounded
  products of the code reach it.
\<close>

lemma exact_product_three_minutes:
  "truncZero ((6308585689649425 / 137438953472 - 25569) * 86400000) = 1756684979999"
  by (simp add: truncZero_def floor_rat_numeral)

text \<open>
  Claim C5. For every value that \<open>isExcelDate\<close> accepts, the number \<open>s\<close> read from it
  lies strictly between 30000 and 2958466, and \<open>formatDate\<close> builds the date whose time
  value is the Unix epoch plus \<open>s - 25569\<close> days: the time value, a whole number of
  milliseconds computed in binary64 and cut by the \<open>Date\<close>, is less than 9/8
  milliseconds away from \<open>(s - 25569) * 86400000\<close>. When \<open>s\<close> is a whole number the time
  value is exactly \<open>(s - 25569) * 86400000\<close>, its UTC hours and minutes are zero, and the
  date is printed without a time of day: so it is for the serial 45901, as a number or
  as a string. A serial with a fraction of a day is printed with its time of day.
\<close>

theorem serial_date_conversion:
  "(isExcelDate v \<longrightarrow>
      (\<exists>s t. serialOf v = Fin s \<and> 30000 < s \<and> s < 2958466
             \<and> formatDateOf dateParse v = Some t
             \<and> \<bar>of_int t - (s - 25569) * 86400000\<bar> < 9 / 8))
   \<and> (isExcelDate v \<and> serialOf v = Fin (of_int n) \<longrightarrow>
        formatDateOf dateParse v = Some ((n - 25569) * 86400000)
        \<and> formatDate dateParse v = DateOnly ((n - 25569) * 86400000)
        \<and> getUTCHours ((n - 25569) * 86400000) = 0
        \<and> getUTCMinutes ((n - 25569) * 86400000) = 0)
   \<and> formatDate dateParse (VNum (Fin 45901)) = DateOnly ((45901 - 25569) * 86400000)
   \<and> formatDate dateParse (VStr (str ''45901'')) = DateOnly ((45901 - 25569) * 86400000)
   \<and> formatDate dateParse (VNum (Fin (6308585689649425 / 137438953472)))
       = DateAndTime 1756684980000"
proof -
  have general: "isExcelDate v \<longrightarrow>
      (\<exists>s t. serialOf v = Fin s \<and> 30000 < s \<and> s < 2958466
             \<and> formatDateOf dateParse v = Some t
             \<and> \<bar>of_int t - (s - 25569) * 86400000\<bar> < 9 / 8)"
  proof
    assume candidate: "isExcelDate v"
    then obtain s where s: "serialOf v = Fin s" "30000 < s" "s < 2958466"
      using isExcelDate_serial by blast
    from serialToDate_bound [OF s(2,3)] obtain t
      where t: "serialToDate (Fin s) = Some t" "\<bar>of_int t - (s - 25569) * 86400000\<bar> < 9 / 8"
      by blast
    from formatDateOf_serial [OF candidate s(1), of dateParse] t(1)
    have "formatDateOf dateParse v = Some t" by simp
    with s t(2) show "\<exists>s t. serialOf v = Fin s \<and> 30000 < s \<and> s < 2958466
             \<and> formatDateOf dateParse v = Some t
             \<and> \<bar>of_int t - (s - 25569) * 86400000\<bar> < 9 / 8"
      by blast
  qed
  have whole: "isExcelDate v \<and> serialOf v = Fin (of_int n) \<longrightarrow>
        formatDateOf dateParse v = Some ((n - 25569) * 86400000)
        \<and> formatDate dateParse v = DateOnly ((n - 25569) * 86400000)
        \<and> getUTCHours ((n - 25569) * 86400000) = 0
        \<and> getUTCMinutes ((n - 25569) * 86400000) = 0"
  proof
    assume h: "isExcelDate v \<and> serialOf v = Fin (of_int n)"
    with isExcelDate_serial [of v] have "(30000::rat) < of_int n" "(of_int n :: rat) < 2958466"
      by auto
    then have n: "30000 < n" "n < 2958466" by simp_all
    from h formatDateOf_serial [of v "of_int n" dateParse] serialToDate_whole [OF n]
    have f: "formatDateOf dateParse v = Some ((n - 25569) * 86400000)" by simp
    note z = whole_days_no_time [of "n - 25569"]
    from f z have "formatDate dateParse v = DateOnly ((n - 25569) * 86400000)"
      by (simp add: formatDate_def Let_def)
    with f z show "formatDateOf dateParse v = Some ((n - 25569) * 86400000)
        \<and> formatDate dateParse v = DateOnly ((n - 25569) * 86400000)
        \<and> getUTCHours ((n - 25569) * 86400000) = 0
        \<and> getUTCMinutes ((n - 25569) * 86400000) = 0"
      by blast
  qed
  from general whole serial_45901_num [of dateParse] serial_45901_str [of dateParse]
    serial_three_minutes [of dateParse]
  show ?thesis by simp
qed

text \<open>Claim C5: the theorem at the serial 45901.\<close>

theorem serial_date_conversion_witness:
  "isExcelDate (VNum (Fin 45901))
   \<and> serialOf (VNum (Fin 45901)) = Fin (of_int 45901)
   \<and> formatDateOf (\<lambda>s. None) (VNum (Fin 45901)) = Some 1756684800000
   \<and> formatDate (\<lambda>s. None) (VNum (Fin 45901)) = DateOnly 1756684800000"
proof -
  have candidate: "isExcelDate (VNum (Fin 45901))" by (simp add: isNaN_def)
  have serial: "serialOf (VNum (Fin 45901)) = Fin (of_int 45901)" by simp
  from serial_date_conversion [of "VNum (Fin 45901)" "\<lambda>s. None" 45901] candidate serial
  have "formatDateOf (\<lambda>s. None) (VNum (Fin 45901)) = Some ((45901 - 25569) * 86400000)
        \<and> formatDate (\<lambda>s. None) (VNum (Fin 45901)) = DateOnly ((45901 - 25569) * 86400000)"
    by blast
  with candidate serial show ?thesis by simp
qed

section \<open>extractNumericValue and the client page's totals\<close>

lemma isFinite_iff: "isFinite x \<longleftrightarrow> (\<exists>a. x = Fin a)"
  by (cases x) simp_all

lemma extract_find:
  "extractNumericValue r names =
     (case find (usable r) names of
        None \<Rightarrow> Fin 0
      | Some fieldName \<Rightarrow> mathAbs (fieldNumber (getField r fieldName)))"
proof (induction names)
  case Nil
  show ?case by simp
next
  case (Cons fieldName names)
  show ?case
  proof (cases "usable r fieldName")
    case True
    then show ?thesis
      by (auto simp: usable_def isNaN_def Let_def isFinite_iff)
  next
    case False
    then have "extractNumericValue r (fieldName # names) = extractNumericValue r names"
      by (auto simp: usable_def isNaN_def Let_def)
    with False Cons.IH show ?thesis by simp
  qed
qed

lemma extract_nonneg: "finLe (Fin 0) (extractNumericValue r names)"
proof (induction names)
  case Nil
  show ?case by simp
next
  case (Cons fieldName names)
  show ?case
  proof (cases "usable r fieldName")
    case True
    then obtain a where "fieldNumber (getField r fieldName) = Fin a"
      by (auto simp: usable_def isFinite_iff)
    with True show ?thesis by (simp add: usable_def isNaN_def Let_def)
  next
    case False
    then have "extractNumericValue r (fieldName # names) = extractNumericValue r names"
      by (auto simp: usable_def isNaN_def Let_def)
    with Cons.IH show ?thesis by simp
  qed
qed

lemma amounts_nonneg: "\<forall>a \<in> set (amountsOf names rs). finLe (Fin 0) a"
  by (auto simp: amountsOf_def extract_nonneg)

lemma positive_nonneg: "\<forall>a \<in> set (positiveAmounts names rs). finLe (Fin 0) a"
  by (auto simp: positiveAmounts_def amountsOf_def extract_nonneg)

lemma nonNegDouble_zero: "nonNegDouble (Fin 0)"
  by (simp add: nonNegDouble_def toDouble_def jsge_def)

lemma nonNegDouble_refl: "nonNegDouble T \<Longrightarrow> jsge T T"
  by (cases T) (simp_all add: nonNegDouble_def jsge_def)

lemma amounts_snoc:
  "amountsOf names (rs @ [r]) = amountsOf names rs @ [extractNumericValue r names]"
  by (simp add: amountsOf_def)

lemma positive_snoc:
  "positiveAmounts names (rs @ [r]) =
     positiveAmounts names rs
     @ (if jsgt (extractNumericValue r names) (Fin 0) then [extractNumericValue r names] else [])"
  by (simp add: positiveAmounts_def amountsOf_def)

lemma positive_append:
  "positiveAmounts names (xs @ ys) = positiveAmounts names xs @ positiveAmounts names ys"
  by (simp add: positiveAmounts_def amountsOf_def)

text \<open>
  Each pair of nested loops is one pass over the rows of the selected sheets.
\<close>

lemma moneyRows_fold:
  "foldl (moneyRowStep names) st rs =
     st \<lparr> msTotal := foldl fadd (msTotal st) (positiveAmounts names rs),
          msCount := msCount st + length (positiveAmounts names rs) \<rparr>"
proof (induction rs arbitrary: st)
  case Nil
  show ?case by (simp add: positiveAmounts_def amountsOf_def)
next
  case (Cons r rs)
  show ?case
    unfolding foldl_Cons Cons.IH
    by (simp add: moneyRowStep_def Let_def positiveAmounts_def amountsOf_def)
qed

lemma moneySheets_fold:
  "foldl (moneySheetStep names) st datas =
     st \<lparr> msTotal := foldl fadd (msTotal st)
                        (positiveAmounts names (concat (map rowsOfValue datas))),
          msCount := msCount st
                     + length (positiveAmounts names (concat (map rowsOfValue datas))),
          msRecords := msRecords st + length (concat (map rowsOfValue datas)) \<rparr>"
proof (induction datas arbitrary: st)
  case Nil
  show ?case by (simp add: positiveAmounts_def amountsOf_def)
next
  case (Cons d datas)
  show ?case
  proof (cases d)
    case NotAnArray
    then show ?thesis unfolding foldl_Cons Cons.IH by (simp add: moneySheetStep_def)
  next
    case (RowArray rs)
    then show ?thesis
      unfolding foldl_Cons Cons.IH
      by (simp add: moneySheetStep_def moneyRows_fold positive_append)
  qed
qed

lemma client_revenue:
  "clientRevenue sd =
     \<lparr> msTotal = foldl fadd (Fin 0)
                   (positiveAmounts revenueAmountFields (clientRows revenueSheetWords sd)),
       msCount = length (positiveAmounts revenueAmountFields (clientRows revenueSheetWords sd)),
       msRecords = length (clientRows revenueSheetWords sd) \<rparr>"
  by (simp add: clientRevenue_def moneySheets_fold clientRows_def moneyInit_def)

lemma client_expenses:
  "clientExpenses sd =
     \<lparr> msTotal = foldl fadd (Fin 0)
                   (positiveAmounts expenseAmountFields (clientRows expenseSheetWords sd)),
       msCount = length (positiveAmounts expenseAmountFields (clientRows expenseSheetWords sd)),
       msRecords = length (clientRows expenseSheetWords sd) \<rparr>"
  by (simp add: clientExpenses_def moneySheets_fold clientRows_def moneyInit_def)

lemma yieldRows_fold:
  "foldl yieldRowStep st rs =
     (foldl fadd (fst st) (amountsOf expectedYieldNames rs),
      foldl fadd (snd st) (amountsOf harvestedNames rs))"
proof (induction rs arbitrary: st)
  case Nil
  show ?case by (simp add: amountsOf_def)
next
  case (Cons r rs)
  show ?case unfolding foldl_Cons Cons.IH by (simp add: yieldRowStep_def amountsOf_def)
qed

lemma yieldSheets_fold:
  "foldl yieldSheetStep st datas =
     (foldl fadd (fst st) (amountsOf expectedYieldNames (concat (map rowsOfValue datas))),
      foldl fadd (snd st) (amountsOf harvestedNames (concat (map rowsOfValue datas))))"
proof (induction datas arbitrary: st)
  case Nil
  show ?case by (simp add: amountsOf_def)
next
  case (Cons d datas)
  show ?case
  proof (cases d)
    case NotAnArray
    then show ?thesis unfolding foldl_Cons Cons.IH by (simp add: yieldSheetStep_def)
  next
    case (RowArray rs)
    then show ?thesis
      unfolding foldl_Cons Cons.IH
      by (simp add: yieldSheetStep_def yieldRows_fold amountsOf_def)
  qed
qed

lemma client_yields:
  "clientYields sd =
     (foldl fadd (Fin 0) (amountsOf expectedYieldNames (clientRows productionSheetWords sd)),
      foldl fadd (Fin 0) (amountsOf harvestedNames (clientRows productionSheetWords sd)))"
  by (simp add: clientYields_def yieldSheets_fold clientRows_def)

lemma qualityRows_fold:
  "foldl qualityRowStep st rs =
     \<lparr> qualityScores = qualityScores st @ positiveAmounts qualityScoreNames rs,
       rejectedItems = foldl fadd (rejectedItems st) (amountsOf rejectedNames rs),
       totalItems = foldl fadd (totalItems st) (amountsOf totalItemNames rs) \<rparr>"
proof (induction rs arbitrary: st)
  case Nil
  show ?case by (simp add: amountsOf_def positiveAmounts_def)
next
  case (Cons r rs)
  show ?case
    unfolding foldl_Cons Cons.IH
    by (simp add: qualityRowStep_def Let_def amountsOf_def positiveAmounts_def)
qed

lemma qualitySheets_fold:
  "foldl qualitySheetStep st datas =
     \<lparr> qualityScores = qualityScores st
                        @ positiveAmounts qualityScoreNames (concat (map rowsOfValue datas)),
       rejectedItems = foldl fadd (rejectedItems st)
                         (amountsOf rejectedNames (concat (map rowsOfValue datas))),
       totalItems = foldl fadd (totalItems st)
                      (amountsOf totalItemNames (concat (map rowsOfValue datas))) \<rparr>"
proof (induction datas arbitrary: st)
  case Nil
  show ?case by (simp add: amountsOf_def positiveAmounts_def)
next
  case (Cons d datas)
  show ?case
  proof (cases d)
    case NotAnArray
    then show ?thesis unfolding foldl_Cons Cons.IH by (simp add: qualitySheetStep_def)
  next
    case (RowArray rs)
    then show ?thesis
      unfolding foldl_Cons Cons.IH
      by (simp add: qualitySheetStep_def qualityRows_fold amountsOf_def positive_append)
  qed
qed

lemma client_quality:
  "clientQuality sd =
     \<lparr> qualityScores = positiveAmounts qualityScoreNames (clientRows qualitySheetWords sd),
       rejectedItems = foldl fadd (Fin 0) (amountsOf rejectedNames (clientRows qualitySheetWords sd)),
       totalItems = foldl fadd (Fin 0) (amountsOf totalItemNames (clientRows qualitySheetWords sd)) \<rparr>"
  by (simp add: clientQuality_def qualitySheets_fold clientRows_def)

text \<open>
  A row appended to the last sheet is the last row visited, when the sheet is selected.
\<close>

lemma clientRows_snoc:
  "clientRows ws (sd @ [(name, v)]) =
     clientRows ws sd @ (if nameHasAny ws name then rowsOfValue v else [])"
  by (simp add: clientRows_def selectSheets_def)

lemma clientRows_row:
  "nameHasAny ws name \<Longrightarrow>
   clientRows ws (sd @ [(name, RowArray (rs @ [r]))])
     = clientRows ws (sd @ [(name, RowArray rs)]) @ [r]"
  by (simp add: clientRows_snoc)

lemma sum_step:
  assumes "nonNegDouble T" "\<forall>a \<in> set xs. finLe (Fin 0) a" "finLe (Fin 0) a"
  shows "jsge (foldl fadd T (xs @ [a])) (foldl fadd T xs)"
  using fadd_nonNegDouble [OF fadd_fold_nonNegDouble [OF assms(1,2)] assms(3)] by simp

lemma positive_sum_step:
  "jsge (foldl fadd (Fin 0) (positiveAmounts names (rs @ [r])))
        (foldl fadd (Fin 0) (positiveAmounts names rs))"
proof (cases "jsgt (extractNumericValue r names) (Fin 0)")
  case True
  with sum_step [OF nonNegDouble_zero positive_nonneg extract_nonneg, of names rs r names]
  show ?thesis by (simp add: positive_snoc)
next
  case False
  with nonNegDouble_refl [OF fadd_fold_nonNegDouble [OF nonNegDouble_zero positive_nonneg]]
  show ?thesis by (simp add: positive_snoc)
qed

lemma amounts_sum_step:
  "jsge (foldl fadd (Fin 0) (amountsOf names (rs @ [r])))
        (foldl fadd (Fin 0) (amountsOf names rs))"
  using sum_step [OF nonNegDouble_zero amounts_nonneg extract_nonneg, of names rs r names]
  by (simp add: amounts_snoc)

lemma revenue_never_reduced:
  assumes "nameHasAny revenueSheetWords name"
  shows "jsge (msTotal (clientRevenue (sd @ [(name, RowArray (rs @ [r]))])))
              (msTotal (clientRevenue (sd @ [(name, RowArray rs)])))"
  by (simp add: client_revenue clientRows_row [OF assms] positive_sum_step)

lemma expenses_never_reduced:
  assumes "nameHasAny expenseSheetWords name"
  shows "jsge (msTotal (clientExpenses (sd @ [(name, RowArray (rs @ [r]))])))
              (msTotal (clientExpenses (sd @ [(name, RowArray rs)])))"
  by (simp add: client_expenses clientRows_row [OF assms] positive_sum_step)

lemma yields_never_reduced:
  assumes "nameHasAny productionSheetWords name"
  shows "jsge (fst (clientYields (sd @ [(name, RowArray (rs @ [r]))])))
              (fst (clientYields (sd @ [(name, RowArray rs)])))
         \<and> jsge (snd (clientYields (sd @ [(name, RowArray (rs @ [r]))])))
                 (snd (clientYields (sd @ [(name, RowArray rs)])))"
  by (simp add: client_yields clientRows_row [OF assms] amounts_sum_step)

lemma quality_never_reduced:
  assumes "nameHasAny qualitySheetWords name"
  shows "jsge (rejectedItems (clientQuality (sd @ [(name, RowArray (rs @ [r]))])))
              (rejectedItems (clientQuality (sd @ [(name, RowArray rs)])))
         \<and> jsge (totalItems (clientQuality (sd @ [(name, RowArray (rs @ [r]))])))
                 (totalItems (clientQuality (sd @ [(name, RowArray rs)])))"
  by (simp add: client_quality clientRows_row [OF assms] amounts_sum_step)

lemma totals_nonNegDouble:
  "nonNegDouble (msTotal (clientRevenue sd))"
  "nonNegDouble (msTotal (clientExpenses sd))"
  "nonNegDouble (fst (clientYields sd))"
  "nonNegDouble (snd (clientYields sd))"
  "nonNegDouble (rejectedItems (clientQuality sd))"
  "nonNegDouble (totalItems (clientQuality sd))"
  by (simp_all add: client_revenue client_expenses client_yields client_quality
        fadd_fold_nonNegDouble nonNegDouble_zero positive_nonneg amounts_nonneg)

lemma toDouble_uminus: "toDouble x = Fin y \<Longrightarrow> toDouble (- x) = Fin (- y)"
  by (cases "x = 0"; cases "x < 0") (auto simp: toDouble_def Let_def split: if_splits)

lemma toDouble_neg_numeral:
  "1 \<le> (numeral k :: int) \<Longrightarrow> (numeral k :: int) < 2 ^ 53 \<Longrightarrow>
   toDouble (- numeral k) = Fin (- numeral k)"
  using toDouble_uminus [OF toDouble_int_numeral, of k] by simp

lemmas extract_defs =
  getField_def keptChar_def isNaN_def revenueAmountFields_def expenseAmountFields_def
  harvestedNames_def expectedYieldNames_def rejectedNames_def totalItemNames_def
  qualityScoreNames_def parseFloat64_def

lemma minus_500_revenue:
  "extractNumericValue [(str ''amount'', VStr (str ''-500''))] revenueAmountFields = Fin 500"
  by (simp add: extract_defs char_defs parse_defs toDouble_int_numeral toDouble_neg_numeral)

lemma minus_500_expense:
  "extractNumericValue [(str ''amount'', VStr (str ''-500''))] expenseAmountFields = Fin 500"
  by (simp add: extract_defs char_defs parse_defs toDouble_int_numeral toDouble_neg_numeral)

lemma minus_500_harvested:
  "extractNumericValue [(str ''harvested'', VStr (str ''-500''))] harvestedNames = Fin 500
   \<and> extractNumericValue [(str ''harvested'', VStr (str ''-500''))] expectedYieldNames = Fin 0"
  by (simp add: extract_defs char_defs parse_defs toDouble_int_numeral toDouble_neg_numeral)

lemma minus_500_rejected:
  "extractNumericValue [(str ''rejected'', VStr (str ''-500''))] rejectedNames = Fin 500
   \<and> extractNumericValue [(str ''rejected'', VStr (str ''-500''))] totalItemNames = Fin 0
   \<and> extractNumericValue [(str ''rejected'', VStr (str ''-500''))] qualityScoreNames = Fin 0"
  by (simp add: extract_defs char_defs parse_defs toDouble_int_numeral toDouble_neg_numeral)

lemma plus_100_revenue:
  "extractNumericValue [(str ''amount'', VStr (str ''100''))] revenueAmountFields = Fin 100"
  by (simp add: extract_defs char_defs parse_defs toDouble_int_numeral toDouble_neg_numeral)

lemma revenue_plus_500:
  assumes "nameHasAny revenueSheetWords name"
  shows "msTotal (clientRevenue
           (sd @ [(name, RowArray (rs @ [[(str ''amount'', VStr (str ''-500''))]]))]))
         = fadd (msTotal (clientRevenue (sd @ [(name, RowArray rs)]))) (Fin 500)"
  by (simp add: client_revenue clientRows_row [OF assms] positive_snoc minus_500_revenue)

lemma expenses_plus_500:
  assumes "nameHasAny expenseSheetWords name"
  shows "msTotal (clientExpenses
           (sd @ [(name, RowArray (rs @ [[(str ''amount'', VStr (str ''-500''))]]))]))
         = fadd (msTotal (clientExpenses (sd @ [(name, RowArray rs)]))) (Fin 500)"
  by (simp add: client_expenses clientRows_row [OF assms] positive_snoc minus_500_expense)

lemma harvested_plus_500:
  assumes "nameHasAny productionSheetWords name"
  shows "snd (clientYields
           (sd @ [(name, RowArray (rs @ [[(str ''harvested'', VStr (str ''-500''))]]))]))
         = fadd (snd (clientYields (sd @ [(name, RowArray rs)]))) (Fin 500)"
  by (simp add: client_yields clientRows_row [OF assms] amounts_snoc minus_500_harvested)

lemma rejected_plus_500:
  assumes "nameHasAny qualitySheetWords name"
  shows "rejectedItems (clientQuality
           (sd @ [(name, RowArray (rs @ [[(str ''rejected'', VStr (str ''-500''))]]))]))
         = fadd (rejectedItems (clientQuality (sd @ [(name, RowArray rs)]))) (Fin 500)"
  by (simp add: client_quality clientRows_row [OF assms] amounts_snoc minus_500_rejected)

lemma fadd_500:
  assumes "0 \<le> k" "k + 500 < 2 ^ 53"
  shows "fadd (Fin (of_int k)) (Fin 500) = Fin (of_int k + 500)"
  using fadd_whole [of k 500] assms by simp

lemma sales_name: "nameHasAny revenueSheetWords (str ''Sales'')"
  by (simp add: nameHasAny_def revenueSheetWords_def toLowerCase_def lowerChar_def str_def)

lemma sales_snapshot:
  "clientRevenue
     [(str ''Sales'', RowArray [[(str ''amount'', VStr (str ''100''))],
                                [(str ''amount'', VStr (str ''-500''))]])]
     = \<lparr> msTotal = Fin 600, msCount = 2, msRecords = 2 \<rparr>"
proof -
  have "fadd (fadd (Fin 0) (Fin 100)) (Fin 500) = Fin 600"
    using fadd_whole [of 0 100] fadd_whole [of 100 500] by simp
  then show ?thesis
    using sales_name
    by (simp add: client_revenue clientRows_def selectSheets_def positiveAmounts_def
          amountsOf_def minus_500_revenue plus_100_revenue)
qed

lemma not_an_array:
  "clientRevenue [(str ''Sales'', NotAnArray)] = \<lparr> msTotal = Fin 0, msCount = 0, msRecords = 0 \<rparr>"
  by (simp add: client_revenue clientRows_def selectSheets_def positiveAmounts_def amountsOf_def)

lemma all_words_name:
  "nameHasAny revenueSheetWords (str ''Sales Cost Harvest Quality'')
   \<and> nameHasAny expenseSheetWords (str ''Sales Cost Harvest Quality'')
   \<and> nameHasAny productionSheetWords (str ''Sales Cost Harvest Quality'')
   \<and> nameHasAny qualitySheetWords (str ''Sales Cost Harvest Quality'')"
  by (simp add: nameHasAny_def revenueSheetWords_def expenseSheetWords_def
        productionSheetWords_def qualitySheetWords_def toLowerCase_def lowerChar_def str_def)

lemma one_row_sheet:
  "nameHasAny revenueSheetWords name \<Longrightarrow>
   msTotal (clientRevenue [(name, RowArray [[(str ''amount'', VStr (str ''100''))]])]) = Fin 100"
  "nameHasAny expenseSheetWords name \<Longrightarrow>
   msTotal (clientExpenses [(name, RowArray [[(str ''amount'', VStr (str ''100''))]])]) = Fin 100"
proof -
  have e: "extractNumericValue [(str ''amount'', VStr (str ''100''))] expenseAmountFields = Fin 100"
    by (simp add: extract_defs char_defs parse_defs toDouble_int_numeral)
  have a: "fadd (Fin 0) (Fin 100) = Fin 100" using fadd_whole [of 0 100] by simp
  show "nameHasAny revenueSheetWords name \<Longrightarrow>
   msTotal (clientRevenue [(name, RowArray [[(str ''amount'', VStr (str ''100''))]])]) = Fin 100"
    using a by (simp add: client_revenue clientRows_def selectSheets_def positiveAmounts_def
          amountsOf_def plus_100_revenue)
  show "nameHasAny expenseSheetWords name \<Longrightarrow>
   msTotal (clientExpenses [(name, RowArray [[(str ''amount'', VStr (str ''100''))]])]) = Fin 100"
    using a by (simp add: client_expenses clientRows_def selectSheets_def positiveAmounts_def
          amountsOf_def e)
qed

text \<open>
  Claim C10. In the real-time client page, \<open>extractNumericValue\<close> returns the absolute
  value of the first candidate field that is present and reads as a finite number, and
  0 when there is none; its result is a finite number \<open>>= 0\<close> for every row and every
  candidate list. For every snapshot, each total of the page is the rounded
  left-to-right sum of these amounts over the rows of all selected sheets whose value is
  an array: the revenue and the expense total add the amounts that are \<open>> 0\<close> and count
  them, the two yield totals and the rejected and total item counts add every amount,
  and the quality scores are the amounts \<open>> 0\<close>. A row whose cell is \<open>"-500"\<close>, appended
  to a selected sheet, adds 500 to the revenue total, the expense total, the harvested
  total and the rejected count of the snapshot (exactly 500 more when the total is a
  whole number below \<open>2^53 - 500\<close>), and no appended row, whatever its cells, makes one
  of the totals smaller. Every total is a binary64 number \<open>>= 0\<close>. The snapshot with the
  sheet \<open>Sales\<close> of the rows \<open>amount: "100"\<close> and \<open>amount: "-500"\<close> has the revenue
  total 600 from 2 sources and 2 records; a sheet whose value is not an array contributes
  nothing.
\<close>

theorem extractNumericValue_absolute:
  "finLe (Fin 0) (extractNumericValue r names)
   \<and> extractNumericValue r names =
       (case find (usable r) names of
          None \<Rightarrow> Fin 0
        | Some fieldName \<Rightarrow> mathAbs (fieldNumber (getField r fieldName)))
   \<and> extractNumericValue [(str ''amount'', VStr (str ''-500''))] revenueAmountFields = Fin 500
   \<and> extractNumericValue [(str ''amount'', VStr (str ''-500''))] expenseAmountFields = Fin 500
   \<and> extractNumericValue [(str ''harvested'', VStr (str ''-500''))] harvestedNames = Fin 500
   \<and> extractNumericValue [(str ''rejected'', VStr (str ''-500''))] rejectedNames = Fin 500
   \<and> clientRevenue sheetsData =
       \<lparr> msTotal = foldl fadd (Fin 0)
                     (positiveAmounts revenueAmountFields (clientRows revenueSheetWords sheetsData)),
         msCount = length (positiveAmounts revenueAmountFields
                             (clientRows revenueSheetWords sheetsData)),
         msRecords = length (clientRows revenueSheetWords sheetsData) \<rparr>
   \<and> clientExpenses sheetsData =
       \<lparr> msTotal = foldl fadd (Fin 0)
                     (positiveAmounts expenseAmountFields (clientRows expenseSheetWords sheetsData)),
         msCount = length (positiveAmounts expenseAmountFields
                             (clientRows expenseSheetWords sheetsData)),
         msRecords = length (clientRows expenseSheetWords sheetsData) \<rparr>
   \<and> clientYields sheetsData =
       (foldl fadd (Fin 0) (amountsOf expectedYieldNames (clientRows productionSheetWords sheetsData)),
        foldl fadd (Fin 0) (amountsOf harvestedNames (clientRows productionSheetWords sheetsData)))
   \<and> clientQuality sheetsData =
       \<lparr> qualityScores = positiveAmounts qualityScoreNames (clientRows qualitySheetWords sheetsData),
         rejectedItems = foldl fadd (Fin 0)
                           (amountsOf rejectedNames (clientRows qualitySheetWords sheetsData)),
         totalItems = foldl fadd (Fin 0)
                        (amountsOf totalItemNames (clientRows qualitySheetWords sheetsData)) \<rparr>
   \<and> clientRows ws (sheetsData @ [(name, v)]) =
       clientRows ws sheetsData @ (if nameHasAny ws name then rowsOfValue v else [])
   \<and> (\<forall>a \<in> set (amountsOf names rs). finLe (Fin 0) a)
   \<and> (nameHasAny revenueSheetWords name \<longrightarrow>
        msTotal (clientRevenue
          (sheetsData @ [(name, RowArray (rs @ [[(str ''amount'', VStr (str ''-500''))]]))]))
        = fadd (msTotal (clientRevenue (sheetsData @ [(name, RowArray rs)]))) (Fin 500)
        \<and> jsge (msTotal (clientRevenue (sheetsData @ [(name, RowArray (rs @ [r]))])))
                (msTotal (clientRevenue (sheetsData @ [(name, RowArray rs)]))))
   \<and> (nameHasAny expenseSheetWords name \<longrightarrow>
        msTotal (clientExpenses
          (sheetsData @ [(name, RowArray (rs @ [[(str ''amount'', VStr (str ''-500''))]]))]))
        = fadd (msTotal (clientExpenses (sheetsData @ [(name, RowArray rs)]))) (Fin 500)
        \<and> jsge (msTotal (clientExpenses (sheetsData @ [(name, RowArray (rs @ [r]))])))
                (msTotal (clientExpenses (sheetsData @ [(name, RowArray rs)]))))
   \<and> (nameHasAny productionSheetWords name \<longrightarrow>
        snd (clientYields
          (sheetsData @ [(name, RowArray (rs @ [[(str ''harvested'', VStr (str ''-500''))]]))]))
        = fadd (snd (clientYields (sheetsData @ [(name, RowArray rs)]))) (Fin 500)
        \<and> jsge (fst (clientYields (sheetsData @ [(name, RowArray (rs @ [r]))])))
                (fst (clientYields (sheetsData @ [(name, RowArray rs)])))
        \<and> jsge (snd (clientYields (sheetsData @ [(name, RowArray (rs @ [r]))])))
                (snd (clientYields (sheetsData @ [(name, RowArray rs)]))))
   \<and> (nameHasAny qualitySheetWords name \<longrightarrow>
        rejectedItems (clientQuality
          (sheetsData @ [(name, RowArray (rs @ [[(str ''rejected'', VStr (str ''-500''))]]))]))
        = fadd (rejectedItems (clientQuality (sheetsData @ [(name, RowArray rs)]))) (Fin 500)
        \<and> jsge (rejectedItems (clientQuality (sheetsData @ [(name, RowArray (rs @ [r]))])))
                (rejectedItems (clientQuality (sheetsData @ [(name, RowArray rs)])))
        \<and> jsge (totalItems (clientQuality (sheetsData @ [(name, RowArray (rs @ [r]))])))
                (totalItems (clientQuality (sheetsData @ [(name, RowArray rs)]))))
   \<and> (0 \<le> k \<and> k + 500 < 2 ^ 53 \<longrightarrow> fadd (Fin (of_int k)) (Fin 500) = Fin (of_int k + 500))
   \<and> nonNegDouble (msTotal (clientRevenue sheetsData))
   \<and> nonNegDouble (msTotal (clientExpenses sheetsData))
   \<and> nonNegDouble (fst (clientYields sheetsData))
   \<and> nonNegDouble (snd (clientYields sheetsData))
   \<and> nonNegDouble (rejectedItems (clientQuality sheetsData))
   \<and> nonNegDouble (totalItems (clientQuality sheetsData))
   \<and> clientRevenue
         [(str ''Sales'', RowArray [[(str ''amount'', VStr (str ''100''))],
                                    [(str ''amount'', VStr (str ''-500''))]])]
       = \<lparr> msTotal = Fin 600, msCount = 2, msRecords = 2 \<rparr>
   \<and> clientRevenue [(str ''Sales'', NotAnArray)]
       = \<lparr> msTotal = Fin 0, msCount = 0, msRecords = 0 \<rparr>"
proof -
  have rev: "nameHasAny revenueSheetWords name \<longrightarrow>
        msTotal (clientRevenue
          (sheetsData @ [(name, RowArray (rs @ [[(str ''amount'', VStr (str ''-500''))]]))]))
        = fadd (msTotal (clientRevenue (sheetsData @ [(name, RowArray rs)]))) (Fin 500)
        \<and> jsge (msTotal (clientRevenue (sheetsData @ [(name, RowArray (rs @ [r]))])))
                (msTotal (clientRevenue (sheetsData @ [(name, RowArray rs)])))"
    using revenue_plus_500 revenue_never_reduced by blast
  have exp: "nameHasAny expenseSheetWords name \<longrightarrow>
        msTotal (clientExpenses
          (sheetsData @ [(name, RowArray (rs @ [[(str ''amount'', VStr (str ''-500''))]]))]))
        = fadd (msTotal (clientExpenses (sheetsData @ [(name, RowArray rs)]))) (Fin 500)
        \<and> jsge (msTotal (clientExpenses (sheetsData @ [(name, RowArray (rs @ [r]))])))
                (msTotal (clientExpenses (sheetsData @ [(name, RowArray rs)])))"
    using expenses_plus_500 expenses_never_reduced by blast
  have yld: "nameHasAny productionSheetWords name \<longrightarrow>
        snd (clientYields
          (sheetsData @ [(name, RowArray (rs @ [[(str ''harvested'', VStr (str ''-500''))]]))]))
        = fadd (snd (clientYields (sheetsData @ [(name, RowArray rs)]))) (Fin 500)
        \<and> jsge (fst (clientYields (sheetsData @ [(name, RowArray (rs @ [r]))])))
                (fst (clientYields (sheetsData @ [(name, RowArray rs)])))
        \<and> jsge (snd (clientYields (sheetsData @ [(name, RowArray (rs @ [r]))])))
                (snd (clientYields (sheetsData @ [(name, RowArray rs)])))"
    using harvested_plus_500 yields_never_reduced by blast
  have qua: "nameHasAny qualitySheetWords name \<longrightarrow>
        rejectedItems (clientQuality
          (sheetsData @ [(name, RowArray (rs @ [[(str ''rejected'', VStr (str ''-500''))]]))]))
        = fadd (rejectedItems (clientQuality (sheetsData @ [(name, RowArray rs)]))) (Fin 500)
        \<and> jsge (rejectedItems (clientQuality (sheetsData @ [(name, RowArray (rs @ [r]))])))
                (rejectedItems (clientQuality (sheetsData @ [(name, RowArray rs)])))
        \<and> jsge (totalItems (clientQuality (sheetsData @ [(name, RowArray (rs @ [r]))])))
                (totalItems (clientQuality (sheetsData @ [(name, RowArray rs)])))"
    using rejected_plus_500 quality_never_reduced by blast
  have whole: "0 \<le> k \<and> k + 500 < 2 ^ 53 \<longrightarrow>
        fadd (Fin (of_int k)) (Fin 500) = Fin (of_int k + 500)"
    using fadd_500 by blast
  note parts =
    extract_nonneg [of r names] extract_find [of r names]
    minus_500_revenue minus_500_expense
    conjunct1 [OF minus_500_harvested] conjunct1 [OF minus_500_rejected]
    client_revenue [of sheetsData] client_expenses [of sheetsData]
    client_yields [of sheetsData] client_quality [of sheetsData]
    clientRows_snoc [of ws sheetsData name v] amounts_nonneg [of names rs]
    rev exp yld qua whole totals_nonNegDouble [of sheetsData] sales_snapshot not_an_array
  show ?thesis by (intro conjI) (rule parts)+
qed

text \<open>
  Claim C10: the theorem at a sheet whose name has a word of each list, with the row
  \<open>amount: "100"\<close> and the appended row \<open>amount: "-500"\<close>.
\<close>

theorem extractNumericValue_absolute_witness:
  "nameHasAny revenueSheetWords (str ''Sales Cost Harvest Quality'')
   \<and> nameHasAny expenseSheetWords (str ''Sales Cost Harvest Quality'')
   \<and> nameHasAny productionSheetWords (str ''Sales Cost Harvest Quality'')
   \<and> nameHasAny qualitySheetWords (str ''Sales Cost Harvest Quality'')
   \<and> (0::int) \<le> 0 \<and> (0::int) + 500 < 2 ^ 53
   \<and> set (amountsOf revenueAmountFields [[(str ''amount'', VStr (str ''100''))]]) = {Fin 100}
   \<and> msTotal (clientRevenue
        [(str ''Sales Cost Harvest Quality'',
          RowArray [[(str ''amount'', VStr (str ''100''))],
                    [(str ''amount'', VStr (str ''-500''))]])]) = Fin 600
   \<and> msTotal (clientExpenses
        [(str ''Sales Cost Harvest Quality'',
          RowArray [[(str ''amount'', VStr (str ''100''))],
                    [(str ''amount'', VStr (str ''-500''))]])]) = Fin 600
   \<and> jsge (Fin 600) (Fin 100)
   \<and> fadd (Fin 0) (Fin 500) = Fin 500"
proof -
  let ?N = "str ''Sales Cost Harvest Quality''"
  let ?row = "[(str ''amount'', VStr (str ''100''))]"
  note T = extractNumericValue_absolute
    [of "[(str ''amount'', VStr (str ''-500''))]" revenueAmountFields "[]" revenueSheetWords
        ?N "RowArray []" "[?row]" 0]
  note N = all_words_name
  have six: "fadd (Fin 100) (Fin 500) = Fin 600" using fadd_whole [of 100 500] by simp
  from T N have "msTotal (clientRevenue
          ([] @ [(?N, RowArray ([?row] @ [[(str ''amount'', VStr (str ''-500''))]]))]))
        = fadd (msTotal (clientRevenue ([] @ [(?N, RowArray [?row])]))) (Fin 500)"
    by blast
  with N have rev: "msTotal (clientRevenue
        [(?N, RowArray [?row, [(str ''amount'', VStr (str ''-500''))]])]) = Fin 600"
    by (simp add: one_row_sheet six)
  from T N have "msTotal (clientExpenses
          ([] @ [(?N, RowArray ([?row] @ [[(str ''amount'', VStr (str ''-500''))]]))]))
        = fadd (msTotal (clientExpenses ([] @ [(?N, RowArray [?row])]))) (Fin 500)"
    by blast
  with N have exp: "msTotal (clientExpenses
        [(?N, RowArray [?row, [(str ''amount'', VStr (str ''-500''))]])]) = Fin 600"
    by (simp add: one_row_sheet six)
  from T have "(0::int) \<le> 0 \<and> (0::int) + 500 < 2 ^ 53 \<longrightarrow>
      fadd (Fin (of_int 0)) (Fin 500) = Fin (of_int 0 + 500)" by blast
  then have k: "fadd (Fin 0) (Fin 500) = Fin 500" by simp
  have am: "set (amountsOf revenueAmountFields [?row]) = {Fin 100}"
    by (simp add: amountsOf_def plus_100_revenue)
  have "jsge (Fin 600) (Fin 100)" by (simp add: jsge_def)
  with N rev exp k am show ?thesis by simp
qed

section \<open>calculateProductionMetrics\<close>













section \<open>generateDynamicDashboard\<close>
















end
